theory Spec2Isabelle
  imports Main "HOL-Library.Word" "HOL-Library.Product_Lexorder"
begin

unbundle bit_operations_syntax

section \<open>JavaScript values and errors\<close>

text \<open>
  The AI utilities of the server (aiUtils.js and cacheManager.js) are plain JavaScript.
  Dynamic values are modelled by one datatype; strings are ASCII character lists;
  \<open>Date.now()\<close>, time-to-live values and timestamps are integers (milliseconds).
  One invocation of an exported function reads the clock as one value \<open>now\<close>.
\<close>

datatype jsval =
    JUndefined
  | JNull
  | JBool bool
  | JNum int
  | JStr string
  | JArr "jsval list"
  | JObj "(string \<times> jsval) list"

text \<open>What \<open>if (v)\<close> tests.\<close>

fun truthy :: "jsval \<Rightarrow> bool" where
  "truthy JUndefined = False"
| "truthy JNull = False"
| "truthy (JBool b) = b"
| "truthy (JNum n) = (n \<noteq> 0)"
| "truthy (JStr s) = (s \<noteq> [])"
| "truthy (JArr xs) = True"
| "truthy (JObj fs) = True"

text \<open>
  A value read from a store that passes the test \<open>if (cached)\<close>: present, not expired
  and truthy.
\<close>

definition usable :: "jsval option \<Rightarrow> jsval option" where
  "usable r = (case r of None \<Rightarrow> None | Some v \<Rightarrow> if truthy v then Some v else None)"

datatype js_error =
    Error string
  | TypeError
  | ReferenceError
  | RangeError
  | SyntaxError
  | AxiosError
  | PrismaError

section \<open>cacheManager.js: class CacheManager\<close>

record 'v cache_entry =
  "value" :: 'v
  expiry :: int

record ('k, 'v) CacheManager =
  cache :: "'k \<rightharpoonup> 'v cache_entry"
  ttl :: int

text \<open>\<open>constructor(ttl = 3600000)\<close>\<close>

definition new_CacheManager :: "int \<Rightarrow> ('k, 'v) CacheManager" where
  "new_CacheManager t = \<lparr>cache = Map.empty, ttl = t\<rparr>"

text \<open>
  \<open>get(key)\<close>: \<open>None\<close> is the returned \<open>null\<close>. The second component is the
  store after the call: an expired entry is deleted by the read.
\<close>

definition CacheManager_get ::
  "('k, 'v) CacheManager \<Rightarrow> int \<Rightarrow> 'k \<Rightarrow> 'v option \<times> ('k, 'v) CacheManager" where
  "CacheManager_get c now key =
     (case cache c key of
        None \<Rightarrow> (None, c)
      | Some e \<Rightarrow>
          if now > expiry e then (None, c\<lparr>cache := (cache c)(key := None)\<rparr>)
          else (Some (value e), c))"

text \<open>
  \<open>set(key, value, customTtl)\<close> with \<open>const ttl = customTtl || this.ttl\<close>:
  an omitted (\<open>None\<close>) or zero \<open>customTtl\<close> is falsy and the store's own ttl is taken.
\<close>

definition CacheManager_set ::
  "('k, 'v) CacheManager \<Rightarrow> int \<Rightarrow> 'k \<Rightarrow> 'v \<Rightarrow> int option \<Rightarrow> ('k, 'v) CacheManager" where
  "CacheManager_set c now key v customTtl =
     (let t = (case customTtl of None \<Rightarrow> ttl c | Some ct \<Rightarrow> if ct \<noteq> 0 then ct else ttl c);
          e = now + t
      in c\<lparr>cache := (cache c)(key \<mapsto> \<lparr>value = v, expiry = e\<rparr>)\<rparr>)"

definition CacheManager_delete :: "('k, 'v) CacheManager \<Rightarrow> 'k \<Rightarrow> ('k, 'v) CacheManager" where
  "CacheManager_delete c key = c\<lparr>cache := (cache c)(key := None)\<rparr>"

definition CacheManager_cleanup :: "('k, 'v) CacheManager \<Rightarrow> int \<Rightarrow> ('k, 'v) CacheManager" where
  "CacheManager_cleanup c now =
     c\<lparr>cache := (\<lambda>k. case cache c k of
                        None \<Rightarrow> None
                      | Some e \<Rightarrow> if now > expiry e then None else Some e)\<rparr>"

definition CacheManager_clear :: "('k, 'v) CacheManager \<Rightarrow> ('k, 'v) CacheManager" where
  "CacheManager_clear c = c\<lparr>cache := Map.empty\<rparr>"

section \<open>The environment of aiUtils.js\<close>

text \<open>
  What the module takes from outside the repository is a parameter of the model: the MD5
  digest of \<open>crypto\<close>, the answers of the remote endpoint to \<open>axios.post\<close> (the answer
  to the n-th request of the process, given its prompt), the rows \<open>prisma.task.findMany\<close>
  returns, \<open>JSON.parse\<close> and \<open>JSON.stringify\<close>, the date formats of \<open>Date\<close>, the
  three regular expressions of the category fallback that need backtracking, and the order
  in which the engine's \<open>Array.prototype.sort\<close> leaves the entries of
  \<open>categoryFrequency\<close> when the comparator returns NaN (ECMAScript leaves the order to
  the implementation when the comparator is not a consistent comparison function).
\<close>

datatype remote_outcome = NetworkFailure | HttpResponse nat jsval

datatype TaskStatus = PENDING | IN_PROGRESS | COMPLETED | CANCELLED

datatype TaskPriority = LOW | MEDIUM | HIGH | URGENT

record User =
  firstName :: string
  lastName :: string

record Task =
  task_id :: string
  title :: string
  description :: "string option"
  status :: TaskStatus
  priority :: TaskPriority
  category :: "string option"
  dueDate :: "int option"
  createdAt :: int
  createdBy :: "User option"
  assignedTo :: "User option"

datatype query =
    CreatedBy string nat
  | CreatedOrAssigned string nat

datatype regex = AvailableCategoriesRe | UsageFrequencyRe | UsageLineRe

text \<open>
  A value held by the plain object \<open>categoryFrequency\<close>: a number, or the string that
  \<open>+ 1\<close> makes of a value inherited from \<open>Object.prototype\<close>.
\<close>

datatype tally = Count nat | Text string

record env =
  md5 :: "string \<Rightarrow> 128 word"
  remote :: "nat \<Rightarrow> string \<Rightarrow> remote_outcome"
  findMany :: "query \<Rightarrow> js_error + Task list"
  JSON_parse :: "string \<Rightarrow> jsval option"
  JSON_stringify :: "jsval \<Rightarrow> string"
  JSON_stringify_indent :: "jsval \<Rightarrow> string"
  toLocaleDateString :: "int \<Rightarrow> string"
  toISOString :: "int \<Rightarrow> string"
  Date_toString :: "int \<Rightarrow> string"
  regex_match :: "regex \<Rightarrow> string \<Rightarrow> string list option"
  sort_inconsistent :: "(string \<times> tally) list \<Rightarrow> (string \<times> tally) list"

text \<open>
  The three process-wide stores of cacheManager.js, and the number of requests sent to the
  remote endpoint so far.
\<close>

record world =
  shortTermCache :: "(string, jsval) CacheManager"
  mediumTermCache :: "(string, jsval) CacheManager"
  longTermCache :: "(string, jsval) CacheManager"
  netcalls :: nat

definition initial_world :: world where
  "initial_world =
     \<lparr>shortTermCache = new_CacheManager 300000,
      mediumTermCache = new_CacheManager 3600000,
      longTermCache = new_CacheManager 86400000,
      netcalls = 0\<rparr>"

section \<open>aiUtils.js: generateHash and callGeminiAPI\<close>

definition bind_err :: "js_error + 'a \<Rightarrow> ('a \<Rightarrow> js_error + 'b) \<Rightarrow> js_error + 'b" where
  "bind_err m f = (case m of Inl e \<Rightarrow> Inl e | Inr x \<Rightarrow> f x)"

definition hex_digit :: "nat \<Rightarrow> char" where
  "hex_digit n = ''0123456789abcdef'' ! (n mod 16)"

definition to_hex :: "128 word \<Rightarrow> string" where
  "to_hex w = map (\<lambda>i. hex_digit (unat (drop_bit (4 * (31 - i)) w AND 15))) [0..<32]"

text \<open>\<open>crypto.createHash('md5').update(str).digest('hex')\<close>: 32 hexadecimal digits.\<close>

definition generateHash :: "env \<Rightarrow> string \<Rightarrow> string" where
  "generateHash env str = to_hex (md5 env str)"

text \<open>
  \<open>v.name\<close> for a name that is neither an index nor \<open>length\<close>, and \<open>v[0]\<close>: both
  raise a TypeError on \<open>undefined\<close> and \<open>null\<close> and give \<open>undefined\<close> where the
  property is missing.
\<close>

fun get_prop :: "jsval \<Rightarrow> string \<Rightarrow> js_error + jsval" where
  "get_prop JUndefined k = Inl TypeError"
| "get_prop JNull k = Inl TypeError"
| "get_prop (JObj fs) k = Inr (case map_of fs k of None \<Rightarrow> JUndefined | Some v \<Rightarrow> v)"
| "get_prop v k = Inr JUndefined"

fun index0 :: "jsval \<Rightarrow> js_error + jsval" where
  "index0 JUndefined = Inl TypeError"
| "index0 JNull = Inl TypeError"
| "index0 (JArr xs) = Inr (case xs of [] \<Rightarrow> JUndefined | x # _ \<Rightarrow> x)"
| "index0 (JStr s) = Inr (case s of [] \<Rightarrow> JUndefined | c # _ \<Rightarrow> JStr [c])"
| "index0 (JObj fs) = Inr (case map_of fs ''0'' of None \<Rightarrow> JUndefined | Some v \<Rightarrow> v)"
| "index0 v = Inr JUndefined"

text \<open>\<open>response.data.candidates[0].content.parts[0].text\<close>\<close>

definition extract_text :: "jsval \<Rightarrow> js_error + jsval" where
  "extract_text data =
     bind_err (get_prop data ''candidates'') (\<lambda>candidates.
     bind_err (index0 candidates) (\<lambda>candidate.
     bind_err (get_prop candidate ''content'') (\<lambda>content.
     bind_err (get_prop content ''parts'') (\<lambda>parts.
     bind_err (index0 parts) (\<lambda>part.
     get_prop part ''text'')))))"

text \<open>
  \<open>axios.post\<close> rejects on a network error and on a status outside 2xx; otherwise it
  resolves with the body as \<open>response.data\<close>. Every request is counted.
\<close>

definition axios_post :: "env \<Rightarrow> string \<Rightarrow> world \<Rightarrow> (js_error + jsval) \<times> world" where
  "axios_post env prompt w =
     ((case remote env (netcalls w) prompt of
         NetworkFailure \<Rightarrow> Inl AxiosError
       | HttpResponse st data \<Rightarrow> if 200 \<le> st \<and> st < 300 then Inr data else Inl AxiosError),
      w\<lparr>netcalls := Suc (netcalls w)\<rparr>)"

definition ai_failed :: js_error where
  "ai_failed = Error ''Failed to generate content with AI''"

text \<open>
  \<open>callGeminiAPI(prompt, useCache, cacheTtl, fallbackFn)\<close>. The inner \<open>try\<close> covers the
  request and the extraction of the text; its \<open>catch\<close> runs the fallback, and an
  exception of the fallback reaches the outer \<open>catch\<close>, which raises the same Error.
\<close>

definition callGeminiAPI ::
  "env \<Rightarrow> int \<Rightarrow> string \<Rightarrow> bool \<Rightarrow> int \<Rightarrow> (string \<Rightarrow> js_error + jsval) option \<Rightarrow> world
     \<Rightarrow> (js_error + jsval) \<times> world" where
  "callGeminiAPI env now prompt useCache cacheTtl fallbackFn w =
     (let cacheKey = generateHash env prompt;
          (cachedResponse, w1) =
             (if useCache
              then (let (r, m) = CacheManager_get (mediumTermCache w) now cacheKey
                    in (r, w\<lparr>mediumTermCache := m\<rparr>))
              else (None, w))
      in case usable cachedResponse of
           Some v \<Rightarrow> (Inr v, w1)
         | None \<Rightarrow>
            (let (response, w2) = axios_post env prompt w1
             in case bind_err response extract_text of
                  Inr generatedText \<Rightarrow>
                    (Inr generatedText,
                     if useCache
                     then w2\<lparr>mediumTermCache :=
                               CacheManager_set (mediumTermCache w2) now cacheKey generatedText (Some cacheTtl)\<rparr>
                     else w2)
                | Inl apiError \<Rightarrow>
                    (case fallbackFn of
                       Some f \<Rightarrow>
                         (case f prompt of
                            Inr fallbackResult \<Rightarrow> (Inr fallbackResult, w2)
                          | Inl e \<Rightarrow> (Inl ai_failed, w2))
                     | None \<Rightarrow> (Inl ai_failed, w2))))"

text \<open>
  The shape of a response body, by itself: \<open>body?.candidates?.[0]?.content?.parts?.[0]\<close>,
  the first part of the first candidate, which is \<open>undefined\<close> where the body or a
  link of the chain is \<open>null\<close> or \<open>undefined\<close>.
\<close>

definition nullish :: "jsval \<Rightarrow> bool" where
  "nullish v = (v = JUndefined \<or> v = JNull)"

fun opt_prop :: "jsval \<Rightarrow> string \<Rightarrow> jsval" where
  "opt_prop (JObj fs) k = (case map_of fs k of None \<Rightarrow> JUndefined | Some v \<Rightarrow> v)"
| "opt_prop v k = JUndefined"

fun opt_index0 :: "jsval \<Rightarrow> jsval" where
  "opt_index0 (JArr xs) = (case xs of [] \<Rightarrow> JUndefined | x # _ \<Rightarrow> x)"
| "opt_index0 (JStr s) = (case s of [] \<Rightarrow> JUndefined | c # _ \<Rightarrow> JStr [c])"
| "opt_index0 (JObj fs) = (case map_of fs ''0'' of None \<Rightarrow> JUndefined | Some v \<Rightarrow> v)"
| "opt_index0 v = JUndefined"

definition first_part :: "jsval \<Rightarrow> jsval" where
  "first_part body =
     opt_index0 (opt_prop (opt_prop (opt_index0 (opt_prop body ''candidates'')) ''content'') ''parts'')"

text \<open>
  The remote call fails: a network error, a status outside 2xx, or a body without a first
  part of a first candidate.
\<close>

definition remote_call_fails :: "remote_outcome \<Rightarrow> bool" where
  "remote_call_fails r =
     (case r of
        NetworkFailure \<Rightarrow> True
      | HttpResponse st body \<Rightarrow> \<not> (200 \<le> st \<and> st < 300) \<or> nullish (first_part body))"

text \<open>
  The remote call succeeds, and \<open>v\<close> is what the first part of the first candidate
  holds as \<open>text\<close> (\<open>undefined\<close> when it holds none).
\<close>

definition remote_answers :: "env \<Rightarrow> nat \<Rightarrow> string \<Rightarrow> jsval \<Rightarrow> bool" where
  "remote_answers env n p v =
     (case remote env n p of
        NetworkFailure \<Rightarrow> False
      | HttpResponse st body \<Rightarrow>
          200 \<le> st \<and> st < 300 \<and> \<not> nullish (first_part body)
          \<and> opt_prop (first_part body) ''text'' = v)"

text \<open>What a read of a store gives to the test \<open>if (cached)\<close>.\<close>

definition cache_lookup :: "(string, jsval) CacheManager \<Rightarrow> int \<Rightarrow> string \<Rightarrow> jsval option" where
  "cache_lookup c now k = usable (fst (CacheManager_get c now k))"

text \<open>The wrapper finds a usable entry for the prompt in the medium-term store.\<close>

definition wrapper_hit :: "env \<Rightarrow> int \<Rightarrow> string \<Rightarrow> world \<Rightarrow> bool" where
  "wrapper_hit env now prompt w =
     (usable (fst (CacheManager_get (mediumTermCache w) now (generateHash env prompt))) \<noteq> None)"

section \<open>Strings and arrays of JavaScript\<close>

definition dq :: string where
  "dq = [CHR 0x22]"

definition apos :: string where
  "apos = [CHR 0x27]"

definition NL :: string where
  "NL = [CHR 0x0A]"

definition is_space :: "char \<Rightarrow> bool" where
  "is_space c = (c \<in> set [CHR 0x09, CHR 0x0A, CHR 0x0B, CHR 0x0C, CHR 0x0D, CHR 0x20])"

definition trim :: "string \<Rightarrow> string" where
  "trim s = rev (dropWhile is_space (rev (dropWhile is_space s)))"

definition lower_char :: "char \<Rightarrow> char" where
  "lower_char c =
     (if 65 \<le> (of_char c :: int) \<and> (of_char c :: int) \<le> 90
      then char_of (of_char c + (32 :: int)) else c)"

definition toLowerCase :: "string \<Rightarrow> string" where
  "toLowerCase s = map lower_char s"

definition startsWith :: "string \<Rightarrow> string \<Rightarrow> bool" where
  "startsWith s p = (take (length p) s = p)"

definition endsWith :: "string \<Rightarrow> string \<Rightarrow> bool" where
  "endsWith s p = (length p \<le> length s \<and> drop (length s - length p) s = p)"

fun includes_str :: "string \<Rightarrow> string \<Rightarrow> bool" where
  "includes_str [] t = (t = [])"
| "includes_str (c # s) t = (startsWith (c # s) t \<or> includes_str s t)"

fun split_on :: "char \<Rightarrow> string \<Rightarrow> string list" where
  "split_on c [] = [[]]"
| "split_on c (x # xs) =
     (if x = c then [] # split_on c xs
      else (case split_on c xs of
              [] \<Rightarrow> [[x]]
            | y # ys \<Rightarrow> (x # y) # ys))"

fun join :: "string \<Rightarrow> string list \<Rightarrow> string" where
  "join sep [] = []"
| "join sep [x] = x"
| "join sep (x # y # ys) = x @ sep @ join sep (y # ys)"

text \<open>\<open>[...new Set(xs)]\<close>: the first occurrence of each element, in order.\<close>

definition uniq :: "'a list \<Rightarrow> 'a list" where
  "uniq xs = rev (remdups (rev xs))"

text \<open>
  \<open>Array.prototype.sort(cmp)\<close> is stable, and for a comparator that is a consistent
  ordering the result is determined: it is what insertion from the right computes.
\<close>

fun insert_by :: "('a \<Rightarrow> 'a \<Rightarrow> int) \<Rightarrow> 'a \<Rightarrow> 'a list \<Rightarrow> 'a list" where
  "insert_by cmp x [] = [x]"
| "insert_by cmp x (y # ys) = (if cmp x y \<le> 0 then x # y # ys else y # insert_by cmp x ys)"

definition js_sort :: "('a \<Rightarrow> 'a \<Rightarrow> int) \<Rightarrow> 'a list \<Rightarrow> 'a list" where
  "js_sort cmp xs = foldr (insert_by cmp) xs []"

text \<open>
  A regular expression \<open>lit"([^"]+)"\<close> for a literal \<open>lit\<close>: the leftmost place where
  the literal is followed by a quote, at least one character other than a quote, and a
  quote. The result is the group.
\<close>

fun match_quoted :: "string \<Rightarrow> string \<Rightarrow> string option" where
  "match_quoted lit [] = None"
| "match_quoted lit (c # s) =
     (let rest = drop (length lit + 1) (c # s);
          g = takeWhile (\<lambda>x. x \<noteq> CHR 0x22) rest
      in if startsWith (c # s) (lit @ dq) \<and> g \<noteq> [] \<and> length g < length rest then Some g
         else match_quoted lit s)"

text \<open>
  \<open>s.replace(/^"(.+)"$/, '$1')\<close>: a string of at least three characters that begins and
  ends with a quote and has no line terminator in between loses the two quotes.
  \<open>s.replace(/\.$/, '')\<close>: a final full stop is removed.
\<close>

definition strip_quotes :: "string \<Rightarrow> string" where
  "strip_quotes s =
     (let inner = butlast (tl s)
      in if 3 \<le> length s \<and> hd s = CHR 0x22 \<and> last s = CHR 0x22
            \<and> (\<forall>c \<in> set inner. c \<noteq> CHR 0x0A \<and> c \<noteq> CHR 0x0D)
         then inner else s)"

definition strip_final_dot :: "string \<Rightarrow> string" where
  "strip_final_dot s = (if s \<noteq> [] \<and> last s = CHR ''.'' then butlast s else s)"

text \<open>\<open>parseInt(s)\<close> without a radix; \<open>None\<close> is NaN.\<close>

definition is_digit :: "char \<Rightarrow> bool" where
  "is_digit c = (48 \<le> (of_char c :: int) \<and> (of_char c :: int) \<le> 57)"

definition digit_val :: "char \<Rightarrow> int" where
  "digit_val c =
     (if is_digit c then of_char c - 48
      else if 97 \<le> (of_char c :: int) \<and> (of_char c :: int) \<le> 102 then of_char c - 87
      else if 65 \<le> (of_char c :: int) \<and> (of_char c :: int) \<le> 70 then of_char c - 55
      else 16)"

definition digits_val :: "int \<Rightarrow> string \<Rightarrow> int" where
  "digits_val radix ds = foldl (\<lambda>acc c. acc * radix + digit_val c) 0 ds"

definition parseInt :: "string \<Rightarrow> int option" where
  "parseInt s =
     (let s1 = dropWhile is_space s;
          neg = (s1 \<noteq> [] \<and> hd s1 = CHR ''-'');
          s2 = (if s1 \<noteq> [] \<and> (hd s1 = CHR ''-'' \<or> hd s1 = CHR ''+'') then tl s1 else s1);
          hex = (startsWith s2 ''0x'' \<or> startsWith s2 ''0X'');
          s3 = (if hex then drop 2 s2 else s2);
          radix = (if hex then 16 else 10);
          ds = takeWhile (\<lambda>c. digit_val c < radix) s3
      in if ds = [] then None
         else Some ((if neg then - 1 else 1) * digits_val radix ds))"

text \<open>
  The order in which \<open>Object.entries\<close> lists the own keys of an object: the keys that are
  array indices (canonical decimal numerals below \<open>2^32 - 1\<close>) first, in ascending
  numeric order, then the other keys in the order of their first insertion.
\<close>

definition is_array_index :: "string \<Rightarrow> bool" where
  "is_array_index k =
     (k \<noteq> [] \<and> list_all is_digit k \<and> (k = ''0'' \<or> hd k \<noteq> CHR ''0'')
      \<and> digits_val 10 k < 4294967295)"

definition own_keys_order :: "string list \<Rightarrow> string list" where
  "own_keys_order ks =
     sort_key (digits_val 10) (filter is_array_index ks) @ filter (\<lambda>k. \<not> is_array_index k) ks"

text \<open>
  The own properties of an object as a list, in the order of their first assignment:
  \<open>obj[k] = v\<close> overwrites in place or appends. \<open>enumeration_order\<close> is the order in
  which \<open>Object.entries\<close>, \<open>Object.keys\<close> and \<open>JSON.stringify\<close> list them.
\<close>

fun set_field :: "string \<Rightarrow> 'v \<Rightarrow> (string \<times> 'v) list \<Rightarrow> (string \<times> 'v) list" where
  "set_field k v [] = [(k, v)]"
| "set_field k v ((k', v') # fs) = (if k = k' then (k, v) # fs else (k', v') # set_field k v fs)"

definition enumeration_order :: "(string \<times> 'v) list \<Rightarrow> (string \<times> 'v) list" where
  "enumeration_order fs =
     sort_key (\<lambda>f. digits_val 10 (fst f)) (filter (\<lambda>f. is_array_index (fst f)) fs)
       @ filter (\<lambda>f. \<not> is_array_index (fst f)) fs"


function show_nat :: "nat \<Rightarrow> string" where
  "show_nat n =
     (if n < 10 then [char_of (48 + n)]
      else show_nat (n div 10) @ [char_of (48 + n mod 10)])"
  by pat_completeness auto
termination
  by (relation "measure (\<lambda>n. n)") auto

declare show_nat.simps [simp del]

definition show_int :: "int \<Rightarrow> string" where
  "show_int i = (if i < 0 then ''-'' @ show_nat (nat (- i)) else show_nat (nat i))"

section \<open>aiUtils.js: predictNextCategory\<close>

text \<open>
  \<open>task.category\<close> where the code tests it for truthiness: \<open>null\<close> and the empty
  string do not count.
\<close>

definition truthy_category :: "Task \<Rightarrow> string option" where
  "truthy_category task =
     (case category task of None \<Rightarrow> None | Some c \<Rightarrow> if c = [] then None else Some c)"

definition predict_cacheKey :: "env \<Rightarrow> string \<Rightarrow> Task list \<Rightarrow> string option \<Rightarrow> string" where
  "predict_cacheKey env userId userTasks taskTitle =
     (let taskIds = join '','' (map task_id (take 10 userTasks))
      in ''predict_category_'' @ userId @ ''_''
           @ generateHash env (taskIds @ (case taskTitle of None \<Rightarrow> [] | Some t \<Rightarrow> t)))"

text \<open>The distinct categories.\<close>

definition distinct_categories :: "Task list \<Rightarrow> string list" where
  "distinct_categories userTasks = uniq (List.map_filter truthy_category userTasks)"

text \<open>
  \<open>categoryUsage\<close> and \<open>categoryFrequency\<close> are plain objects (\<open>{}\<close>), which
  inherit from \<open>Object.prototype\<close>. Under the name \<open>__proto__\<close> they inherit an
  accessor: reading it gives the prototype, an object, and assigning a number or a string
  to it does nothing, so that no own property is created. Under the other inherited names
  they find a function, and an assignment creates an own property. \<open>inherited_text k\<close> is
  the string that \<open>+\<close> makes of the value inherited under the name \<open>k\<close>.
\<close>

definition Object_prototype_functions :: "string list" where
  "Object_prototype_functions =
     [''__defineGetter__'', ''__defineSetter__'', ''hasOwnProperty'', ''__lookupGetter__'',
      ''__lookupSetter__'', ''isPrototypeOf'', ''propertyIsEnumerable'', ''toString'', ''valueOf'',
      ''toLocaleString'']"

definition inherited_text :: "string \<Rightarrow> string option" where
  "inherited_text k =
     (if k = ''__proto__'' then Some ''[object Object]''
      else if k = ''constructor'' then Some ''function Object() { [native code] }''
      else if k \<in> set Object_prototype_functions then Some (''function '' @ k @ ''() { [native code] }'')
      else None)"

text \<open>
  \<open>Object.entries(categoryUsage)\<close> after
  \<open>categoryUsage[category] = userTasks.filter(task => task.category === category).length\<close>
  for each distinct category.
\<close>

definition categoryUsage_entries :: "Task list \<Rightarrow> (string \<times> nat) list" where
  "categoryUsage_entries userTasks =
     enumeration_order
       (foldl (\<lambda>obj c.
                 if c = ''__proto__'' then obj
                 else set_field c (length (filter (\<lambda>task. category task = Some c) userTasks)) obj)
          [] (distinct_categories userTasks))"

definition recentTasks_of :: "Task list \<Rightarrow> (string \<times> string) list" where
  "recentTasks_of userTasks =
     List.map_filter
       (\<lambda>task. case truthy_category task of
                  None \<Rightarrow> None
                | Some c \<Rightarrow> if title task = [] then None else Some (title task, c))
       (take 10 userTasks)"

definition category_prompt ::
  "string \<Rightarrow> string list \<Rightarrow> (string \<times> nat) list \<Rightarrow> (string \<times> string) list \<Rightarrow> string" where
  "category_prompt taskTitle categories categoryUsage recentTasks =
     concat
       [NL,
        ''          As an AI assistant for a task management application, predict the most appropriate category for a new task.'', NL,
        ''          '', NL,
        ''          New Task Title: '', dq, taskTitle, dq, NL,
        ''          '', NL,
        ''          Available Categories:'', NL,
        ''          '', join NL (map (\<lambda>c. ''- '' @ c) categories), NL,
        ''          '', NL,
        ''          Category Usage Frequency:'', NL,
        ''          '', join NL (map (\<lambda>(category, count). category @ '': '' @ show_nat count @ '' tasks'') categoryUsage), NL,
        ''          '', NL,
        ''          Recent Tasks:'', NL,
        ''          '', join NL (map (\<lambda>(t_title, t_category). ''Title: '' @ dq @ t_title @ dq @ '' - Category: '' @ dq @ t_category @ dq) recentTasks), NL,
        ''          '', NL,
        ''          Based on the user'', apos, ''s task history and the new task title, predict the most appropriate category from the available categories.'', NL,
        ''          Return ONLY the category name without any additional text, quotes, or explanation.'', NL,
        ''          '']"

text \<open>
  The loop of the fallback over the usage lines; \<open>UsageLineRe\<close> is
  \<open>/([^:]+): (\d+) tasks/\<close>.
\<close>

fun usage_loop ::
  "env \<Rightarrow> string list \<Rightarrow> int \<times> string option \<Rightarrow> js_error + (int \<times> string option)" where
  "usage_loop env [] acc = Inr acc"
| "usage_loop env (line # lines) (highestUsage, mostUsedCategory) =
     (case regex_match env UsageLineRe line of
        None \<Rightarrow> usage_loop env lines (highestUsage, mostUsedCategory)
      | Some (m0 # m1 # m2 # _) \<Rightarrow>
          (case parseInt m2 of
             None \<Rightarrow> usage_loop env lines (highestUsage, mostUsedCategory)
           | Some count \<Rightarrow>
               if count > highestUsage then usage_loop env lines (count, Some (trim m1))
               else usage_loop env lines (highestUsage, mostUsedCategory))
      | Some _ \<Rightarrow> Inl TypeError)"

text \<open>
  \<open>categoryPredictionFallback(prompt)\<close>; \<open>AvailableCategoriesRe\<close> is
  \<open>/Available Categories:\s*((?:- [^\n]+\s*)+)/\<close> and \<open>UsageFrequencyRe\<close> is
  \<open>/Category Usage Frequency:\s*((?:[^\n]+\s*)+)/\<close>.
\<close>

definition categoryPredictionFallback :: "env \<Rightarrow> string \<Rightarrow> js_error + jsval" where
  "categoryPredictionFallback env prompt =
     (case regex_match env AvailableCategoriesRe prompt of
        None \<Rightarrow> Inr JNull
      | Some (m0 # categoriesText # _) \<Rightarrow>
          (let categories =
                 map (\<lambda>line. trim (drop 2 line))
                   (filter (\<lambda>line. startsWith line ''- '')
                      (map trim (split_on (CHR 0x0A) categoriesText)));
               taskTitle =
                 (case match_quoted ''New Task Title: '' prompt of
                    None \<Rightarrow> []
                  | Some t \<Rightarrow> toLowerCase t);
               matchingCategory =
                 (if taskTitle \<noteq> []
                  then List.find (\<lambda>category.
                         includes_str taskTitle (toLowerCase category)
                         \<or> includes_str (toLowerCase category) taskTitle) categories
                  else None)
           in if categories = [] then Inr JNull
              else if (case matchingCategory of None \<Rightarrow> False | Some c \<Rightarrow> c \<noteq> [])
              then Inr (JStr (the matchingCategory))
              else (case regex_match env UsageFrequencyRe prompt of
                      None \<Rightarrow> Inr (JStr (hd categories))
                    | Some (u0 # usageText # _) \<Rightarrow>
                        bind_err (usage_loop env (map trim (split_on (CHR 0x0A) usageText)) (0, None))
                          (\<lambda>(highestUsage, mostUsedCategory).
                             case mostUsedCategory of
                               None \<Rightarrow> Inr (JStr (hd categories))
                             | Some c \<Rightarrow> if c \<noteq> [] then Inr (JStr c) else Inr (JStr (hd categories)))
                    | Some _ \<Rightarrow> Inl TypeError))
      | Some _ \<Rightarrow> Inl TypeError)"

text \<open>
  The part of \<open>predictNextCategory\<close> inside the inner \<open>try\<close>, entered when a title was
  given and there are at least five tasks. \<open>Some v\<close>: the function returns \<open>v\<close> from
  there; \<open>None\<close>: control reaches the statistical prediction, also after an exception,
  which the inner \<open>catch\<close> only logs.
\<close>

definition ai_category_prediction ::
  "env \<Rightarrow> int \<Rightarrow> string \<Rightarrow> string \<Rightarrow> Task list \<Rightarrow> world \<Rightarrow> jsval option \<times> world" where
  "ai_category_prediction env now cacheKey taskTitle userTasks w =
     (let categories = distinct_categories userTasks
      in if categories = [] then (None, w)
         else
          (let prompt = category_prompt taskTitle categories (categoryUsage_entries userTasks)
                          (recentTasks_of userTasks);
               (aiPrediction, w1) =
                  callGeminiAPI env now prompt True 300000 (Some (categoryPredictionFallback env)) w
           in case aiPrediction of
                Inl e \<Rightarrow> (None, w1)
              | Inr (JStr s) \<Rightarrow>
                  (let cleanedPrediction = strip_final_dot (strip_quotes (trim s))
                   in if cleanedPrediction \<in> set categories
                      then (Some (JStr cleanedPrediction),
                            w1\<lparr>shortTermCache :=
                                 CacheManager_set (shortTermCache w1) now cacheKey
                                   (JStr cleanedPrediction) (Some 300000)\<rparr>)
                      else (case List.find (\<lambda>c.
                                    includes_str (toLowerCase c) (toLowerCase cleanedPrediction)
                                    \<or> includes_str (toLowerCase cleanedPrediction) (toLowerCase c))
                                  categories of
                              None \<Rightarrow> (None, w1)
                            | Some closestMatch \<Rightarrow>
                                if closestMatch = [] then (None, w1)
                                else (Some (JStr closestMatch),
                                      w1\<lparr>shortTermCache :=
                                           CacheManager_set (shortTermCache w1) now cacheKey
                                             (JStr closestMatch) (Some 300000)\<rparr>)))
              | Inr v \<Rightarrow> (None, w1)))"

text \<open>The statistical prediction: the rest of the outer \<open>try\<close>.\<close>

definition sortedTasks_of :: "Task list \<Rightarrow> Task list" where
  "sortedTasks_of userTasks = js_sort (\<lambda>a b. createdAt b - createdAt a) userTasks"

definition recentCategories_of :: "Task list \<Rightarrow> string list" where
  "recentCategories_of userTasks = List.map_filter truthy_category (take 5 (sortedTasks_of userTasks))"

text \<open>
  \<open>categoryFrequency[c] = (categoryFrequency[c] || 0) + 1\<close> for one task with the
  truthy category \<open>c\<close>: an own number is incremented; an own string, and the value
  inherited under the name, is truthy and \<open>+ 1\<close> appends the character 1 to its text.
\<close>

definition count_category :: "(string \<times> tally) list \<Rightarrow> string \<Rightarrow> (string \<times> tally) list" where
  "count_category obj c =
     (let v = (case map_of obj c of
                 Some (Count n) \<Rightarrow> Count (n + 1)
               | Some (Text s) \<Rightarrow> if s = [] then Count 1 else Text (s @ ''1'')
               | None \<Rightarrow> (case inherited_text c of None \<Rightarrow> Count 1 | Some s \<Rightarrow> Text (s @ ''1'')))
      in if c = ''__proto__'' then obj else set_field c v obj)"

text \<open>\<open>Object.entries(categoryFrequency)\<close> after the loop over the tasks.\<close>

definition categoryFrequency_entries :: "Task list \<Rightarrow> (string \<times> tally) list" where
  "categoryFrequency_entries userTasks =
     enumeration_order (foldl count_category [] (List.map_filter truthy_category userTasks))"

text \<open>
  The comparator \<open>(a, b) => b[1] - a[1]\<close>. Between two numbers it is their difference.
  A string held by \<open>categoryFrequency\<close> begins with \<open>function\<close> or \<open>[object\<close> and
  converts to NaN, so that the difference is NaN; \<open>Array.prototype.sort\<close> is then left
  to the engine, which returns the same entries in an order of its choosing.
\<close>

definition is_Count :: "tally \<Rightarrow> bool" where
  "is_Count v = (case v of Count n \<Rightarrow> True | Text s \<Rightarrow> False)"

definition frequency_compare :: "string \<times> tally \<Rightarrow> string \<times> tally \<Rightarrow> int" where
  "frequency_compare a b =
     (case snd a of
        Count x \<Rightarrow> (case snd b of Count y \<Rightarrow> int y - int x | Text t \<Rightarrow> 0)
      | Text s \<Rightarrow> 0)"

definition same_elements :: "'a list \<Rightarrow> 'a list \<Rightarrow> bool" where
  "same_elements xs ys = list_all (\<lambda>x. count_list xs x = count_list ys x) (xs @ ys)"

definition sortedCategories_of :: "env \<Rightarrow> Task list \<Rightarrow> (string \<times> tally) list" where
  "sortedCategories_of env userTasks =
     (let entries = categoryFrequency_entries userTasks
      in if list_all (\<lambda>e. is_Count (snd e)) entries then js_sort frequency_compare entries
         else if same_elements (sort_inconsistent env entries) entries
         then sort_inconsistent env entries
         else entries)"

definition statistical_choice :: "env \<Rightarrow> Task list \<Rightarrow> string option" where
  "statistical_choice env userTasks =
     (let recentCategories = recentCategories_of userTasks
      in if categoryFrequency_entries userTasks = [] then None
         else if 2 \<le> length recentCategories
                 \<and> 2 \<le> length (filter (\<lambda>c. c = hd recentCategories) (take 3 recentCategories))
         then Some (hd recentCategories)
         else Some (fst (hd (sortedCategories_of env userTasks))))"

definition statistical_prediction ::
  "env \<Rightarrow> int \<Rightarrow> string \<Rightarrow> Task list \<Rightarrow> world \<Rightarrow> jsval \<times> world" where
  "statistical_prediction env now cacheKey userTasks w =
     (case statistical_choice env userTasks of
        None \<Rightarrow> (JNull, w)
      | Some prediction \<Rightarrow>
          (JStr prediction,
           w\<lparr>shortTermCache :=
                CacheManager_set (shortTermCache w) now cacheKey (JStr prediction) (Some 300000)\<rparr>))"

text \<open>
  After a miss of the short-term store: the AI prediction when a title was given and there
  are at least five tasks, then the statistical prediction.
\<close>

definition predict_after_miss ::
  "env \<Rightarrow> int \<Rightarrow> string \<Rightarrow> Task list \<Rightarrow> string option \<Rightarrow> world \<Rightarrow> jsval \<times> world" where
  "predict_after_miss env now cacheKey userTasks taskTitle w1 =
     (let (returned, w2) =
            (case taskTitle of
               None \<Rightarrow> (None, w1)
             | Some t \<Rightarrow>
                 if t \<noteq> [] \<and> 5 \<le> length userTasks
                 then ai_category_prediction env now cacheKey t userTasks w1
                 else (None, w1))
      in case returned of
           Some v \<Rightarrow> (v, w2)
         | None \<Rightarrow> statistical_prediction env now cacheKey userTasks w2)"

text \<open>
  \<open>if (!userTasks) userTasks = await prisma.task.findMany(...)\<close>: \<open>None\<close> is the omitted
  argument; the up to 50 newest tasks created by the user are fetched in its place.
\<close>

definition fetch_userTasks :: "env \<Rightarrow> string \<Rightarrow> Task list option \<Rightarrow> js_error + Task list" where
  "fetch_userTasks env userId userTasks =
     (case userTasks of
        None \<Rightarrow> findMany env (CreatedBy userId 50)
      | Some ts \<Rightarrow> Inr ts)"

text \<open>
  The body of the outer \<open>try\<close> of \<open>predictNextCategory(userId, userTasks, taskTitle)\<close>.
\<close>

definition predictNextCategory_try ::
  "env \<Rightarrow> int \<Rightarrow> string \<Rightarrow> Task list option \<Rightarrow> string option \<Rightarrow> world
     \<Rightarrow> (js_error + jsval) \<times> world" where
  "predictNextCategory_try env now userId userTasks0 taskTitle w =
     (case fetch_userTasks env userId userTasks0 of
        Inl e \<Rightarrow> (Inl e, w)
      | Inr userTasks \<Rightarrow>
          if userTasks = [] then (Inr JNull, w)
          else
           (let cacheKey = predict_cacheKey env userId userTasks taskTitle;
                (cachedPrediction, short1) = CacheManager_get (shortTermCache w) now cacheKey;
                w1 = w\<lparr>shortTermCache := short1\<rparr>
            in case usable cachedPrediction of
                 Some v \<Rightarrow> (Inr v, w1)
               | None \<Rightarrow>
                   (let (v, w3) = predict_after_miss env now cacheKey userTasks taskTitle w1
                    in (Inr v, w3))))"

text \<open>The outer \<open>catch\<close> logs the error and returns \<open>null\<close>.\<close>

definition predictNextCategory ::
  "env \<Rightarrow> int \<Rightarrow> string \<Rightarrow> Task list option \<Rightarrow> string option \<Rightarrow> world
     \<Rightarrow> (js_error + jsval) \<times> world" where
  "predictNextCategory env now userId userTasks taskTitle w =
     (let (r, w') = predictNextCategory_try env now userId userTasks taskTitle w
      in case r of
           Inl error \<Rightarrow> (Inr JNull, w')
         | Inr v \<Rightarrow> (Inr v, w'))"

section \<open>aiUtils.js: generateTitleSuggestions\<close>

definition title_prompt :: "string \<Rightarrow> string list \<Rightarrow> string list \<Rightarrow> string" where
  "title_prompt prefix previousTitles categories =
     concat
       [NL,
        ''    As an AI assistant for a task management application, suggest 5 possible task titles that start with '', dq, prefix, dq, ''.'', NL,
        ''    '', NL,
        ''    Here are some examples of the user'', apos, ''s previous task titles for context:'', NL,
        ''    '', join NL previousTitles, NL,
        ''    '', NL,
        ''    The user typically works with these categories:'', NL,
        ''    '', join '', '' categories, NL,
        ''    '', NL,
        ''    Please provide 5 professional, clear, and specific task title suggestions that:'', NL,
        ''    1. Start with or contain '', dq, prefix, dq, NL,
        ''    2. Are relevant to the user'', apos, ''s previous tasks and categories'', NL,
        ''    3. Are between 3-8 words in length'', NL,
        ''    4. Are formatted as a JSON array of strings only (no explanations or other text)'', NL,
        ''    '', NL,
        ''    Example response format:'', NL,
        ''    ['', dq, ''Complete quarterly report'', dq, '', '', dq, ''Create marketing presentation'', dq, '', '', dq, ''Review team performance'', dq, '', '', dq, ''Update client database'', dq, '', '', dq, ''Schedule team meeting'', dq, '']'', NL,
        ''    '']"

text \<open>The five suggestions the code falls back to: in the fallback and in both \<open>catch\<close> blocks.\<close>

definition static_suggestions :: "string \<Rightarrow> string list" where
  "static_suggestions prefix =
     [prefix @ '' task'', prefix @ '' project'', prefix @ '' review'', prefix @ '' update'',
      prefix @ '' meeting'']"

text \<open>
  \<open>titleSuggestionsFallback(prompt)\<close>. The declaration
  \<open>const prefix = prefixMatch ? prefixMatch[1] : prefix\<close> reads the inner \<open>prefix\<close> before
  it is initialised when the pattern \<open>/start with "([^"]+)"/\<close> does not match: a
  ReferenceError.
\<close>

definition titleSuggestionsFallback :: "env \<Rightarrow> string \<Rightarrow> js_error + jsval" where
  "titleSuggestionsFallback env prompt =
     (case match_quoted ''start with '' prompt of
        None \<Rightarrow> Inl ReferenceError
      | Some prefix \<Rightarrow> Inr (JStr (JSON_stringify env (JArr (map JStr (static_suggestions prefix))))))"

text \<open>
  \<open>response.match(/\[.*\]/s)\<close>: from the first opening bracket to the last closing
  bracket after it, if there is one.
\<close>

definition delimited_match :: "char \<Rightarrow> char \<Rightarrow> string \<Rightarrow> string option" where
  "delimited_match opening closing s =
     (let from_open = dropWhile (\<lambda>c. c \<noteq> opening) s;
          upto_close = rev (dropWhile (\<lambda>c. c \<noteq> closing) (rev from_open))
      in if from_open \<noteq> [] \<and> upto_close \<noteq> [] \<and> tl upto_close \<noteq> [] then Some upto_close else None)"

text \<open>
  The second parse: the lines that begin with a quote, each replaced by its first quoted
  non-empty text (\<open>/"([^"]+)"/\<close>), the lines without one dropped, at most five.
\<close>

definition scan_lines :: "string \<Rightarrow> string list" where
  "scan_lines response =
     take 5
       (filter (\<lambda>s. s \<noteq> [])
          (List.map_filter (\<lambda>line. match_quoted [] line)
             (filter (\<lambda>line. startsWith line dq \<and> includes_str line dq)
                (map trim (split_on (CHR 0x0A) response)))))"

text \<open>
  The \<open>try\<close> block that parses the response. \<open>Inl\<close>: an exception, which the
  \<open>catch\<close> turns into the static suggestions. A response that is not a string has no
  \<open>match\<close> method; \<open>JSON.parse\<close> raises a SyntaxError; a parsed value that is not an
  array has no \<open>filter\<close> method.
\<close>

definition parse_suggestions_try :: "env \<Rightarrow> jsval \<Rightarrow> js_error + string list" where
  "parse_suggestions_try env response =
     (case response of
        JStr s \<Rightarrow>
          (case delimited_match (CHR 0x5B) (CHR 0x5D) s of
             Some m \<Rightarrow>
               (case JSON_parse env m of
                  None \<Rightarrow> Inl SyntaxError
                | Some (JArr items) \<Rightarrow>
                    Inr (take 5 (List.map_filter (\<lambda>item. case item of JStr x \<Rightarrow> Some x | _ \<Rightarrow> None) items))
                | Some _ \<Rightarrow> Inl TypeError)
           | None \<Rightarrow> Inr (scan_lines s))
      | _ \<Rightarrow> Inl TypeError)"

definition parse_suggestions :: "env \<Rightarrow> string \<Rightarrow> jsval \<Rightarrow> string list" where
  "parse_suggestions env prefix response =
     (case parse_suggestions_try env response of
        Inl error \<Rightarrow> static_suggestions prefix
      | Inr suggestions \<Rightarrow> suggestions)"

definition title_cacheKey :: "string \<Rightarrow> string \<Rightarrow> string" where
  "title_cacheKey userId prefix = ''title_suggestions_'' @ userId @ ''_'' @ prefix"

text \<open>After a miss of the short-term store: the rest of the outer \<open>try\<close>.\<close>

definition title_after_miss ::
  "env \<Rightarrow> int \<Rightarrow> string \<Rightarrow> string \<Rightarrow> world \<Rightarrow> (js_error + jsval) \<times> world" where
  "title_after_miss env now prefix userId w =
     (case findMany env (CreatedOrAssigned userId 20) of
        Inl e \<Rightarrow> (Inl e, w)
      | Inr userTasks \<Rightarrow>
          (let previousTitles = map title userTasks;
               categories = uniq (List.map_filter truthy_category userTasks);
               prompt = title_prompt prefix previousTitles categories;
               r = callGeminiAPI env now prompt True 300000 (Some (titleSuggestionsFallback env)) w
           in case fst r of
                Inl e \<Rightarrow> (Inl e, snd r)
              | Inr response \<Rightarrow>
                  (let suggestions = JArr (map JStr (parse_suggestions env prefix response))
                   in (Inr suggestions,
                       (snd r)\<lparr>shortTermCache :=
                          CacheManager_set (shortTermCache (snd r)) now (title_cacheKey userId prefix)
                            suggestions (Some 300000)\<rparr>))))"

definition generateTitleSuggestions_try ::
  "env \<Rightarrow> int \<Rightarrow> string \<Rightarrow> string \<Rightarrow> world \<Rightarrow> (js_error + jsval) \<times> world" where
  "generateTitleSuggestions_try env now prefix userId w =
     (if length prefix < 3 then (Inr (JArr []), w)
      else
       (let g = CacheManager_get (shortTermCache w) now (title_cacheKey userId prefix);
            w1 = w\<lparr>shortTermCache := snd g\<rparr>
        in case usable (fst g) of
             Some cachedSuggestions \<Rightarrow> (Inr cachedSuggestions, w1)
           | None \<Rightarrow> title_after_miss env now prefix userId w1))"

text \<open>The outer \<open>catch\<close> returns the static suggestions; it stores nothing.\<close>

definition generateTitleSuggestions ::
  "env \<Rightarrow> int \<Rightarrow> string \<Rightarrow> string \<Rightarrow> world \<Rightarrow> (js_error + jsval) \<times> world" where
  "generateTitleSuggestions env now prefix userId w =
     (let r = generateTitleSuggestions_try env now prefix userId w
      in case fst r of
           Inl error \<Rightarrow> (Inr (JArr (map JStr (static_suggestions prefix))), snd r)
         | Inr v \<Rightarrow> (Inr v, snd r))"

section \<open>aiUtils.js: generateTaskPrioritization\<close>

definition show_status :: "TaskStatus \<Rightarrow> string" where
  "show_status s =
     (case s of PENDING \<Rightarrow> ''PENDING'' | IN_PROGRESS \<Rightarrow> ''IN_PROGRESS''
      | COMPLETED \<Rightarrow> ''COMPLETED'' | CANCELLED \<Rightarrow> ''CANCELLED'')"

definition show_priority :: "TaskPriority \<Rightarrow> string" where
  "show_priority p =
     (case p of LOW \<Rightarrow> ''LOW'' | MEDIUM \<Rightarrow> ''MEDIUM'' | HIGH \<Rightarrow> ''HIGH'' | URGENT \<Rightarrow> ''URGENT'')"

text \<open>The active tasks: neither completed nor cancelled.\<close>

definition activeTasks_of :: "Task list \<Rightarrow> Task list" where
  "activeTasks_of userTasks =
     filter (\<lambda>task. status task \<noteq> COMPLETED \<and> status task \<noteq> CANCELLED) userTasks"

definition prioritization_cacheKey :: "env \<Rightarrow> string \<Rightarrow> Task list \<Rightarrow> string" where
  "prioritization_cacheKey env userId activeTasks =
     (let taskData =
            join ''|''
              (map (\<lambda>t. task_id t @ ''-'' @ show_status (status t) @ ''-'' @ show_priority (priority t)
                          @ ''-'' @ (case dueDate t of None \<Rightarrow> ''null'' | Some d \<Rightarrow> Date_toString env d))
                 activeTasks)
      in ''task_prioritization_'' @ userId @ ''_'' @ generateHash env taskData)"

text \<open>\<open>new Date(d).toISOString().split('T')[0]\<close>: the text before the first \<open>T\<close>.\<close>

definition iso_date :: "env \<Rightarrow> int \<Rightarrow> string" where
  "iso_date env d = takeWhile (\<lambda>c. c \<noteq> CHR ''T'') (toISOString env d)"

text \<open>\<open>task.dueDate && new Date(task.dueDate) < new Date()\<close>\<close>

definition isOverdue :: "int \<Rightarrow> Task \<Rightarrow> bool" where
  "isOverdue now task = (case dueDate task of None \<Rightarrow> False | Some d \<Rightarrow> d < now)"

definition taskForAI :: "env \<Rightarrow> int \<Rightarrow> Task \<Rightarrow> jsval" where
  "taskForAI env now task =
     JObj
      [(''id'', JStr (task_id task)),
       (''title'', JStr (title task)),
       (''description'',
          JStr (case description task of
                  None \<Rightarrow> ''No description''
                | Some d \<Rightarrow> if d = [] then ''No description''
                            else take 100 d @ (if 100 < length d then ''...'' else []))),
       (''status'', JStr (show_status (status task))),
       (''priority'', JStr (show_priority (priority task))),
       (''category'', JStr (case truthy_category task of None \<Rightarrow> ''Uncategorized'' | Some c \<Rightarrow> c)),
       (''dueDate'', JStr (case dueDate task of None \<Rightarrow> ''No due date'' | Some d \<Rightarrow> iso_date env d)),
       (''daysUntilDue'',
          (case dueDate task of None \<Rightarrow> JNull | Some d \<Rightarrow> JNum (- ((now - d) div 86400000)))),
       (''isOverdue'', JBool (isOverdue now task))]"

definition prioritization_prompt :: "env \<Rightarrow> jsval list \<Rightarrow> string" where
  "prioritization_prompt env tasksForAI =
     concat
       [NL,
        ''    As an AI task prioritization assistant, analyze the following tasks and provide recommendations for which tasks the user should focus on first.'', NL,
        NL,
        ''    USER TASKS:'', NL,
        ''    '', JSON_stringify_indent env (JArr tasksForAI), NL,
        ''    '', NL,
        ''    Please provide:'', NL,
        ''    1. A prioritized list of the top 5 tasks the user should focus on, with a brief explanation for each'', NL,
        ''    2. A short explanation of your prioritization logic'', NL,
        ''    3. Any tasks that might be at risk of becoming overdue soon'', NL,
        ''    4. Suggestions for any tasks that could potentially be delegated or rescheduled'', NL,
        ''    '', NL,
        ''    Format your response as a JSON object with the following structure:'', NL,
        ''    {'', NL,
        ''      '', dq, ''prioritizedTasks'', dq, '': ['', NL,
        ''        {'', NL,
        ''          '', dq, ''id'', dq, '': '', dq, ''task-id'', dq, '','', NL,
        ''          '', dq, ''title'', dq, '': '', dq, ''Task title'', dq, '','', NL,
        ''          '', dq, ''reason'', dq, '': '', dq, ''Reason for prioritization'', dq, NL,
        ''        }'', NL,
        ''      ],'', NL,
        ''      '', dq, ''logic'', dq, '': '', dq, ''Explanation of prioritization logic'', dq, '','', NL,
        ''      '', dq, ''atRiskTasks'', dq, '': ['', NL,
        ''        {'', NL,
        ''          '', dq, ''id'', dq, '': '', dq, ''task-id'', dq, '','', NL,
        ''          '', dq, ''title'', dq, '': '', dq, ''Task title'', dq, '','', NL,
        ''          '', dq, ''risk'', dq, '': '', dq, ''Description of the risk'', dq, NL,
        ''        }'', NL,
        ''      ],'', NL,
        ''      '', dq, ''suggestions'', dq, '': ['', NL,
        ''        {'', NL,
        ''          '', dq, ''id'', dq, '': '', dq, ''task-id'', dq, '','', NL,
        ''          '', dq, ''title'', dq, '': '', dq, ''Task title'', dq, '','', NL,
        ''          '', dq, ''suggestion'', dq, '': '', dq, ''Suggestion for this task'', dq, NL,
        ''        }'', NL,
        ''      ]'', NL,
        ''    }'', NL,
        ''    '', NL,
        ''    Ensure your response is valid JSON that can be parsed.'', NL,
        ''    '']"

text \<open>
  The \<open>try\<close> block that parses the response: \<open>generatedResponse.match(/\{[\s\S]*\}/)\<close>
  and \<open>JSON.parse\<close>. \<open>Inl\<close>: an exception (no \<open>match\<close> method on a value that is not a
  string, no braces, or a SyntaxError), handled by the fallback below.
\<close>

definition parse_prioritization_try :: "env \<Rightarrow> jsval \<Rightarrow> js_error + jsval" where
  "parse_prioritization_try env generatedResponse =
     (case generatedResponse of
        JStr s \<Rightarrow>
          (case delimited_match (CHR 0x7B) (CHR 0x7D) s of
             None \<Rightarrow> Inl (Error ''No valid JSON found in response'')
           | Some jsonMatch \<Rightarrow>
               (case JSON_parse env jsonMatch of
                  None \<Rightarrow> Inl SyntaxError
                | Some parsed \<Rightarrow> Inr parsed))
      | _ \<Rightarrow> Inl TypeError)"

text \<open>The comparator of the fallback sort.\<close>

definition priorityOrder :: "TaskPriority \<Rightarrow> int" where
  "priorityOrder p = (case p of URGENT \<Rightarrow> 0 | HIGH \<Rightarrow> 1 | MEDIUM \<Rightarrow> 2 | LOW \<Rightarrow> 3)"

definition fallback_compare :: "int \<Rightarrow> Task \<Rightarrow> Task \<Rightarrow> int" where
  "fallback_compare now a b =
     (let aOverdue = isOverdue now a;
          bOverdue = isOverdue now b
      in if aOverdue \<and> \<not> bOverdue then - 1
         else if \<not> aOverdue \<and> bOverdue then 1
         else if priorityOrder (priority a) \<noteq> priorityOrder (priority b)
         then priorityOrder (priority a) - priorityOrder (priority b)
         else (case dueDate a of
                 Some da \<Rightarrow> (case dueDate b of Some db \<Rightarrow> da - db | None \<Rightarrow> - 1)
               | None \<Rightarrow> (case dueDate b of Some db \<Rightarrow> 1 | None \<Rightarrow> 0)))"

definition prioritized_entry :: "env \<Rightarrow> Task \<Rightarrow> jsval" where
  "prioritized_entry env task =
     JObj
      [(''id'', JStr (task_id task)),
       (''title'', JStr (title task)),
       (''reason'',
          JStr (show_priority (priority task) @ '' priority''
                @ (case dueDate task of
                     None \<Rightarrow> []
                   | Some d \<Rightarrow> '', due '' @ toLocaleDateString env d)))]"

definition fallback_prioritization :: "env \<Rightarrow> int \<Rightarrow> Task list \<Rightarrow> jsval" where
  "fallback_prioritization env now activeTasks =
     (let sortedTasks = js_sort (fallback_compare now) activeTasks
      in JObj
          [(''prioritizedTasks'', JArr (map (prioritized_entry env) (take 5 sortedTasks))),
           (''logic'', JStr ''Tasks are prioritized based on urgency, priority level, and due date.''),
           (''atRiskTasks'', JArr []),
           (''suggestions'', JArr [])])"

text \<open>
  \<open>{ message: ..., ...parsedResponse }\<close>: the own enumerable properties of the spread
  value are assigned in order, a key that is already there keeping its place; the result
  lists the keys that are array indices first.
\<close>

definition own_properties :: "jsval \<Rightarrow> (string \<times> jsval) list" where
  "own_properties v =
     (case v of
        JObj fs \<Rightarrow> fs
      | JArr xs \<Rightarrow> map (\<lambda>i. (show_nat i, xs ! i)) [0..<length xs]
      | JStr s \<Rightarrow> map (\<lambda>i. (show_nat i, JStr [s ! i])) [0..<length s]
      | _ \<Rightarrow> [])"

definition prioritization_result :: "jsval \<Rightarrow> jsval" where
  "prioritization_result parsedResponse =
     JObj (enumeration_order
             (foldl (\<lambda>fs (k, v). set_field k v fs)
                [(''message'',
                  JStr ''Here are your prioritized tasks based on urgency, importance, and deadlines.'')]
                (own_properties parsedResponse)))"

text \<open>After a miss of the medium-term store: the rest of the outer \<open>try\<close>.\<close>

definition prioritization_after_miss ::
  "env \<Rightarrow> int \<Rightarrow> string \<Rightarrow> Task list \<Rightarrow> world \<Rightarrow> (js_error + jsval) \<times> world" where
  "prioritization_after_miss env now cacheKey activeTasks w =
     (let prompt = prioritization_prompt env (map (taskForAI env now) activeTasks);
          r = callGeminiAPI env now prompt True 3600000 None w
      in case fst r of
           Inl e \<Rightarrow> (Inl e, snd r)
         | Inr generatedResponse \<Rightarrow>
             (let parsedResponse =
                    (case parse_prioritization_try env generatedResponse of
                       Inl parseError \<Rightarrow> fallback_prioritization env now activeTasks
                     | Inr parsed \<Rightarrow> parsed);
                  result = prioritization_result parsedResponse
              in (Inr result,
                  (snd r)\<lparr>mediumTermCache :=
                     CacheManager_set (mediumTermCache (snd r)) now cacheKey result (Some 1800000)\<rparr>)))"

definition no_tasks_result :: "string \<Rightarrow> jsval" where
  "no_tasks_result message = JObj [(''message'', JStr message), (''prioritizedTasks'', JArr [])]"

definition generateTaskPrioritization_try ::
  "env \<Rightarrow> int \<Rightarrow> string \<Rightarrow> Task list \<Rightarrow> world \<Rightarrow> (js_error + jsval) \<times> world" where
  "generateTaskPrioritization_try env now userId userTasks w =
     (if userTasks = [] then (Inr (no_tasks_result ''No tasks found to prioritize.''), w)
      else if activeTasks_of userTasks = []
      then (Inr (no_tasks_result ''No active tasks found to prioritize.''), w)
      else
       (let cacheKey = prioritization_cacheKey env userId (activeTasks_of userTasks);
            g = CacheManager_get (mediumTermCache w) now cacheKey;
            w1 = w\<lparr>mediumTermCache := snd g\<rparr>
        in case usable (fst g) of
             Some cachedResult \<Rightarrow> (Inr cachedResult, w1)
           | None \<Rightarrow> prioritization_after_miss env now cacheKey (activeTasks_of userTasks) w1))"

definition prioritization_error_result :: jsval where
  "prioritization_error_result =
     JObj
      [(''message'',
        JStr ''Error generating task prioritization. Using default sorting by priority and due date.''),
       (''prioritizedTasks'', JArr []),
       (''logic'', JStr ''Default sorting by priority and due date.''),
       (''atRiskTasks'', JArr []),
       (''suggestions'', JArr [])]"

definition generateTaskPrioritization ::
  "env \<Rightarrow> int \<Rightarrow> string \<Rightarrow> Task list \<Rightarrow> world \<Rightarrow> (js_error + jsval) \<times> world" where
  "generateTaskPrioritization env now userId userTasks w =
     (let r = generateTaskPrioritization_try env now userId userTasks w
      in case fst r of
           Inl error \<Rightarrow> (Inr prioritization_error_result, snd r)
         | Inr v \<Rightarrow> (Inr v, snd r))"

text \<open>
  The order the specification gives for the fallback: overdue tasks first (a task is
  overdue when it has a due date before now), then by priority rank (URGENT before HIGH
  before MEDIUM before LOW), then by ascending due date, tasks without a due date last.
  The key is compared lexicographically.
\<close>

definition spec_priority_key :: "int \<Rightarrow> Task \<Rightarrow> nat \<times> nat \<times> nat \<times> int" where
  "spec_priority_key now task =
     (if (case dueDate task of None \<Rightarrow> False | Some d \<Rightarrow> d < now) then 0 else 1,
      (case priority task of URGENT \<Rightarrow> 0 | HIGH \<Rightarrow> 1 | MEDIUM \<Rightarrow> 2 | LOW \<Rightarrow> 3),
      (case dueDate task of Some d \<Rightarrow> (0, d) | None \<Rightarrow> (1, 0)))"

definition spec_fallback_order :: "int \<Rightarrow> Task list \<Rightarrow> Task list" where
  "spec_fallback_order now tasks = sort_key (spec_priority_key now) tasks"

section \<open>aiUtils.js: generateTaskDescription\<close>

definition recent_task_context :: "Task \<Rightarrow> string" where
  "recent_task_context task =
     concat
       [''Title: '', dq, title task, dq, NL,
        ''          Description: '', dq, (case description task of None \<Rightarrow> ''N/A'' | Some d \<Rightarrow> if d = [] then ''N/A'' else d), dq, NL,
        ''          Category: '', (case truthy_category task of None \<Rightarrow> ''N/A'' | Some c \<Rightarrow> c), NL,
        ''          '']"

definition userContext_text :: "Task list \<Rightarrow> string" where
  "userContext_text recentTasks =
     concat
       [NL,
        ''          Here are some examples of the user'', apos, ''s previous tasks for context:'', NL,
        ''          '', join NL (map recent_task_context recentTasks), NL,
        ''          '', NL,
        ''          Please use a similar style and level of detail as the examples above.'', NL,
        ''          '']"

text \<open>
  The user context: empty without a user id, when the tasks cannot be read (the inner
  \<open>catch\<close> only logs) and when the user has no task.
\<close>

definition userContext_of :: "env \<Rightarrow> string option \<Rightarrow> string" where
  "userContext_of env userId =
     (case userId of
        None \<Rightarrow> []
      | Some u \<Rightarrow>
          if u = [] then []
          else (case findMany env (CreatedBy u 3) of
                  Inl error \<Rightarrow> []
                | Inr recentTasks \<Rightarrow> if recentTasks = [] then [] else userContext_text recentTasks))"

definition description_prompt :: "string \<Rightarrow> string \<Rightarrow> string \<Rightarrow> string" where
  "description_prompt title' summary userContext =
     concat
       [NL,
        ''    Task Title: '', dq, title', dq, NL,
        ''    User Summary: '', dq, summary, dq, NL,
        ''    '', NL,
        ''    '', userContext, NL,
        ''    '', NL,
        ''    Based on the task title and user summary above, please generate a detailed, professional task description that:'', NL,
        ''    1. Expands on the key points mentioned in the summary'', NL,
        ''    2. Organizes the information in a clear, structured way'', NL,
        ''    3. Uses professional language appropriate for a task management system'', NL,
        ''    4. Keeps the description concise (maximum 3-4 paragraphs)'', NL,
        ''    5. Does not add speculative information not implied by the title or summary'', NL,
        ''    6. Includes specific actionable items or steps when appropriate'', NL,
        ''    7. Highlights any deadlines, dependencies, or important considerations'', NL,
        ''    '', NL,
        ''    Return ONLY the description text without any additional commentary, prefixes, or formatting.'', NL,
        ''    '']"

text \<open>
  \<open>s.split(/[.!?]+/)\<close>: the pieces between the maximal runs of the separator
  characters.
\<close>

function split_runs :: "(char \<Rightarrow> bool) \<Rightarrow> string \<Rightarrow> string list" where
  "split_runs P [] = [[]]"
| "split_runs P (c # s) =
     (if P c then [] # split_runs P (dropWhile P s)
      else (case split_runs P s of
              [] \<Rightarrow> [[c]]
            | y # ys \<Rightarrow> (c # y) # ys))"
  by pat_completeness auto
termination
  by (relation "measure (\<lambda>(P, s). length s)") (auto simp: length_dropWhile_le less_Suc_eq_le)

text \<open>
  \<open>descriptionFallback(prompt)\<close>; it closes over \<open>summary\<close>, which it returns when
  the title or the summary cannot be read back from the prompt.
\<close>

definition descriptionFallback :: "string \<Rightarrow> string \<Rightarrow> js_error + jsval" where
  "descriptionFallback summary prompt =
     (case match_quoted ''Task Title: '' prompt of
        None \<Rightarrow> Inr (JStr summary)
      | Some extractedTitle \<Rightarrow>
          (case match_quoted ''User Summary: '' prompt of
             None \<Rightarrow> Inr (JStr summary)
           | Some extractedSummary \<Rightarrow>
               (let sentences =
                      filter (\<lambda>s. trim s \<noteq> [])
                        (split_runs (\<lambda>c. c = CHR ''.'' \<or> c = CHR ''!'' \<or> c = CHR ''?'') extractedSummary);
                    keyPoints = filter (\<lambda>s. 10 < length s) (map trim sentences)
                in Inr (JStr (concat
                     [''# '', extractedTitle, NL, NL,
                      ''## Overview'', NL, extractedSummary, NL, NL,
                      (if 1 < length keyPoints
                       then ''## Key Points'' @ NL
                            @ concat (map (\<lambda>point. ''- '' @ point @ ''.'' @ NL) keyPoints) @ NL
                       else []),
                      ''## Implementation Details'', NL,
                      ''This task involves implementing changes related to '',
                      toLowerCase extractedTitle,
                      ''. Please ensure all requirements are met and tested thoroughly before completion.'',
                      NL, NL,
                      ''## Acceptance Criteria'', NL,
                      ''- All functionality works as described in the overview'', NL,
                      ''- Code is well-documented and follows project standards'', NL,
                      ''- Tests are included where appropriate'', NL])))))"

text \<open>\<open>s.replace(/^lit/, '')\<close>\<close>

definition strip_prefix :: "string \<Rightarrow> string \<Rightarrow> string" where
  "strip_prefix lit s = (if startsWith s lit then drop (length lit) s else s)"

text \<open>
  The cleaning of the generated description; a value that is not a string has no
  \<open>trim\<close> method.
\<close>

definition clean_description :: "jsval \<Rightarrow> js_error + string" where
  "clean_description generatedDescription =
     (case generatedDescription of
        JStr s \<Rightarrow>
          Inr (trim (strip_prefix ''Task Description:''
                      (strip_prefix ''Description:''
                         (strip_prefix ''Generated Description:'' (trim s)))))
      | _ \<Rightarrow> Inl TypeError)"

definition description_cacheKey :: "env \<Rightarrow> string \<Rightarrow> string \<Rightarrow> string" where
  "description_cacheKey env title' summary = ''description_'' @ generateHash env (title' @ summary)"

definition description_after_miss ::
  "env \<Rightarrow> int \<Rightarrow> string \<Rightarrow> string \<Rightarrow> string option \<Rightarrow> world \<Rightarrow> (js_error + jsval) \<times> world" where
  "description_after_miss env now title' summary userId w =
     (let prompt = description_prompt title' summary (userContext_of env userId);
          r = callGeminiAPI env now prompt True 3600000 (Some (descriptionFallback summary)) w
      in case bind_err (fst r) clean_description of
           Inl e \<Rightarrow> (Inl e, snd r)
         | Inr cleanedDescription \<Rightarrow>
             (Inr (JStr cleanedDescription),
              (snd r)\<lparr>mediumTermCache :=
                 CacheManager_set (mediumTermCache (snd r)) now (description_cacheKey env title' summary)
                   (JStr cleanedDescription) (Some 3600000)\<rparr>))"

definition generateTaskDescription_try ::
  "env \<Rightarrow> int \<Rightarrow> string \<Rightarrow> string \<Rightarrow> string option \<Rightarrow> world \<Rightarrow> (js_error + jsval) \<times> world" where
  "generateTaskDescription_try env now title' summary userId w =
     (if trim summary = [] then (Inr JNull, w)
      else
       (let g = CacheManager_get (mediumTermCache w) now (description_cacheKey env title' summary);
            w1 = w\<lparr>mediumTermCache := snd g\<rparr>
        in case usable (fst g) of
             Some cachedDescription \<Rightarrow> (Inr cachedDescription, w1)
           | None \<Rightarrow> description_after_miss env now title' summary userId w1))"

text \<open>The outer \<open>catch\<close> returns the summary.\<close>

definition generateTaskDescription ::
  "env \<Rightarrow> int \<Rightarrow> string \<Rightarrow> string \<Rightarrow> string option \<Rightarrow> world \<Rightarrow> (js_error + jsval) \<times> world" where
  "generateTaskDescription env now title' summary userId w =
     (let r = generateTaskDescription_try env now title' summary userId w
      in case fst r of
           Inl error \<Rightarrow> (Inr (JStr summary), snd r)
         | Inr v \<Rightarrow> (Inr v, snd r))"

section \<open>aiUtils.js: generateCriticalTasksReport\<close>

definition is_active :: "Task \<Rightarrow> bool" where
  "is_active task = (status task \<noteq> COMPLETED \<and> status task \<noteq> CANCELLED)"

definition criticalTasks_of :: "Task list \<Rightarrow> Task list" where
  "criticalTasks_of tasks =
     filter (\<lambda>task. (priority task = HIGH \<or> priority task = URGENT) \<and> is_active task) tasks"

definition overdueTasks_of :: "int \<Rightarrow> Task list \<Rightarrow> Task list" where
  "overdueTasks_of now tasks = filter (\<lambda>task. isOverdue now task \<and> is_active task) tasks"

text \<open>\<open>new Date(task.dueDate)\<close> as a number; \<open>new Date(null)\<close> is the epoch.\<close>

definition due_time :: "Task \<Rightarrow> int" where
  "due_time task = (case dueDate task of None \<Rightarrow> 0 | Some d \<Rightarrow> d)"

definition sortedOverdueTasks_of :: "int \<Rightarrow> Task list \<Rightarrow> Task list" where
  "sortedOverdueTasks_of now tasks =
     js_sort (\<lambda>a b. due_time a - due_time b) (overdueTasks_of now tasks)"

definition full_name :: "User \<Rightarrow> string" where
  "full_name u = firstName u @ '' '' @ lastName u"

definition assignee_name :: "Task \<Rightarrow> string" where
  "assignee_name task = (case assignedTo task of None \<Rightarrow> ''Unassigned'' | Some u \<Rightarrow> full_name u)"

text \<open>
  The prompt data of one task. \<open>task.createdBy.firstName\<close> raises a TypeError when the
  creator was not loaded with the task.
\<close>

definition critical_task_data :: "env \<Rightarrow> Task \<Rightarrow> js_error + jsval" where
  "critical_task_data env task =
     (case createdBy task of
        None \<Rightarrow> Inl TypeError
      | Some creator \<Rightarrow>
          Inr (JObj
            [(''title'', JStr (title task)),
             (''priority'', JStr (show_priority (priority task))),
             (''status'', JStr (show_status (status task))),
             (''dueDate'', JStr (case dueDate task of None \<Rightarrow> ''No due date'' | Some d \<Rightarrow> iso_date env d)),
             (''assignedTo'', JStr (assignee_name task)),
             (''createdBy'', JStr (full_name creator))]))"

definition days_overdue :: "int \<Rightarrow> Task \<Rightarrow> int" where
  "days_overdue now task = (case dueDate task of None \<Rightarrow> 0 | Some d \<Rightarrow> (now - d) div 86400000)"

definition overdue_task_data :: "env \<Rightarrow> int \<Rightarrow> Task \<Rightarrow> js_error + jsval" where
  "overdue_task_data env now task =
     (case createdBy task of
        None \<Rightarrow> Inl TypeError
      | Some creator \<Rightarrow>
          Inr (JObj
            [(''title'', JStr (title task)),
             (''priority'', JStr (show_priority (priority task))),
             (''status'', JStr (show_status (status task))),
             (''dueDate'', JStr (case dueDate task of None \<Rightarrow> ''No due date'' | Some d \<Rightarrow> iso_date env d)),
             (''daysOverdue'', JNum (days_overdue now task)),
             (''assignedTo'', JStr (assignee_name task)),
             (''createdBy'', JStr (full_name creator))]))"

text \<open>\<open>xs.map(f)\<close> for an \<open>f\<close> that may raise: the first exception ends the map.\<close>

fun map_err :: "('a \<Rightarrow> js_error + 'b) \<Rightarrow> 'a list \<Rightarrow> js_error + 'b list" where
  "map_err f [] = Inr []"
| "map_err f (x # xs) =
     (case f x of
        Inl e \<Rightarrow> Inl e
      | Inr y \<Rightarrow> (case map_err f xs of Inl e \<Rightarrow> Inl e | Inr ys \<Rightarrow> Inr (y # ys)))"

definition report_prompt :: "env \<Rightarrow> jsval list \<Rightarrow> jsval list \<Rightarrow> string" where
  "report_prompt env criticalTasksData overdueTasksData =
     concat
       [NL,
        ''    Generate a professional executive summary report for an admin dashboard based on the following task data:'', NL,
        ''    '', NL,
        ''    CRITICAL TASKS ('', show_nat (length criticalTasksData), ''):'', NL,
        ''    '', JSON_stringify_indent env (JArr criticalTasksData), NL,
        ''    '', NL,
        ''    OVERDUE TASKS ('', show_nat (length overdueTasksData), ''):'', NL,
        ''    '', JSON_stringify_indent env (JArr overdueTasksData), NL,
        ''    '', NL,
        ''    Please create a concise report that:'', NL,
        ''    1. Summarizes the overall status of critical and overdue tasks'', NL,
        ''    2. Highlights the most urgent issues that need attention'', NL,
        ''    3. Identifies any patterns or trends (e.g., specific users with many overdue tasks)'', NL,
        ''    4. Provides actionable recommendations for the admin'', NL,
        ''    5. Uses professional, clear language suitable for an executive summary'', NL,
        ''    6. Formats the report with appropriate sections and bullet points for readability'', NL,
        ''    '', NL,
        ''    Executive Summary Report:'', NL,
        ''    '']"

definition critical_line :: "Task \<Rightarrow> string" where
  "critical_line task =
     ''- '' @ title task @ '' ('' @ show_priority (priority task) @ '' priority, assigned to ''
       @ assignee_name task @ '')''"

definition overdue_line :: "int \<Rightarrow> Task \<Rightarrow> string" where
  "overdue_line now task =
     ''- '' @ title task @ '' ('' @ show_int (days_overdue now task) @ '' days overdue, assigned to ''
       @ assignee_name task @ '')''"

text \<open>
  \<open>reportFallback(prompt)\<close>; it closes over the critical and the (unsorted) overdue tasks
  and ignores the prompt.
\<close>

definition reportFallback :: "int \<Rightarrow> Task list \<Rightarrow> Task list \<Rightarrow> string \<Rightarrow> js_error + jsval" where
  "reportFallback now criticalTasks overdueTasks prompt =
     Inr (JStr (
     concat
       [NL,
        ''## Executive Summary: Critical and Overdue Tasks'', NL,
        NL,
        ''### Overview'', NL,
        ''The system currently has '', show_nat (length criticalTasks), '' critical tasks and '', show_nat (length overdueTasks), '' overdue tasks that require immediate attention.'', NL,
        NL,
        ''### Critical Tasks'', NL,
        join NL (map critical_line criticalTasks), NL,
        NL,
        ''### Overdue Tasks'', NL,
        join NL (map (overdue_line now) overdueTasks), NL,
        NL,
        ''### Recommendations'', NL,
        ''1. Address the overdue tasks immediately, especially those with high or urgent priority'', NL,
        ''2. Review resource allocation for team members with multiple critical or overdue tasks'', NL,
        ''3. Consider implementing stricter deadline monitoring to prevent future overdue tasks'', NL,
        NL,
        ''This report was generated automatically based on current task data.'', NL,
        ''      '']))"

text \<open>\<open>generatedReport.trim()\<close>\<close>

definition trim_value :: "jsval \<Rightarrow> js_error + jsval" where
  "trim_value v = (case v of JStr s \<Rightarrow> Inr (JStr (trim s)) | _ \<Rightarrow> Inl TypeError)"

definition generateCriticalTasksReport_try ::
  "env \<Rightarrow> int \<Rightarrow> Task list \<Rightarrow> world \<Rightarrow> (js_error + jsval) \<times> world" where
  "generateCriticalTasksReport_try env now tasks w =
     (if tasks = [] then (Inr (JStr ''No tasks found for analysis.''), w)
      else
        (case map_err (critical_task_data env) (criticalTasks_of tasks) of
           Inl e \<Rightarrow> (Inl e, w)
         | Inr criticalTasksData \<Rightarrow>
             (case map_err (overdue_task_data env now) (sortedOverdueTasks_of now tasks) of
                Inl e \<Rightarrow> (Inl e, w)
              | Inr overdueTasksData \<Rightarrow>
                  (let prompt = report_prompt env criticalTasksData overdueTasksData;
                       r = callGeminiAPI env now prompt True 3600000
                             (Some (reportFallback now (criticalTasks_of tasks) (overdueTasks_of now tasks))) w
                   in (bind_err (fst r) trim_value, snd r)))))"

definition generateCriticalTasksReport ::
  "env \<Rightarrow> int \<Rightarrow> Task list \<Rightarrow> world \<Rightarrow> (js_error + jsval) \<times> world" where
  "generateCriticalTasksReport env now tasks w =
     (let r = generateCriticalTasksReport_try env now tasks w
      in case fst r of
           Inl error \<Rightarrow> (Inr (JStr ''Error generating report. Please try again later.''), snd r)
         | Inr v \<Rightarrow> (Inr v, snd r))"

section \<open>Environments and data for the examples\<close>

text \<open>
  An endpoint that is unreachable, and one that answers every request with status 200 and
  the given text as the first part of the first candidate. Nothing is known of the other
  library functions: they parse nothing and print nothing. The engine sorts by insertion,
  reading NaN as 0.
\<close>

definition offline_env :: env where
  "offline_env =
     \<lparr>md5 = (\<lambda>s. 0), remote = (\<lambda>n p. NetworkFailure), findMany = (\<lambda>q. Inr []),
      JSON_parse = (\<lambda>s. None), JSON_stringify = (\<lambda>v. []), JSON_stringify_indent = (\<lambda>v. []),
      toLocaleDateString = (\<lambda>t. []), toISOString = (\<lambda>t. []), Date_toString = (\<lambda>t. []),
      regex_match = (\<lambda>r s. None), sort_inconsistent = js_sort frequency_compare\<rparr>"

definition text_body :: "string \<Rightarrow> jsval" where
  "text_body s =
     JObj [(''candidates'',
            JArr [JObj [(''content'', JObj [(''parts'', JArr [JObj [(''text'', JStr s)]])])]])]"

text \<open>An endpoint that answers every request with the given status and body.\<close>

definition responding_env :: "nat \<Rightarrow> jsval \<Rightarrow> env" where
  "responding_env st body = offline_env\<lparr>remote := (\<lambda>n p. HttpResponse st body)\<rparr>"

text \<open>A body whose first part holds a function call and no text.\<close>

definition textless_body :: jsval where
  "textless_body =
     JObj [(''candidates'',
            JArr [JObj [(''content'',
                        JObj [(''parts'', JArr [JObj [(''functionCall'', JObj [(''name'', JStr ''f'')])]])])]])]"

definition answering_env :: "string \<Rightarrow> env" where
  "answering_env s = offline_env\<lparr>remote := (\<lambda>n p. HttpResponse 200 (text_body s))\<rparr>"

definition example_task :: "string \<Rightarrow> string option \<Rightarrow> int \<Rightarrow> Task" where
  "example_task i c t =
     \<lparr>task_id = i, title = ''Task '' @ i, description = None, status = PENDING, priority = MEDIUM,
      category = c, dueDate = None, createdAt = t, createdBy = None, assignedTo = None\<rparr>"

text \<open>
  A world whose medium-term store holds, under the key of the prompt \<open>p\<close>, a text
  stored at time 0 with a time-to-live of 5 ms.
\<close>

definition stale_world :: "env \<Rightarrow> string \<Rightarrow> world" where
  "stale_world env p =
     initial_world\<lparr>mediumTermCache :=
       CacheManager_set (new_CacheManager 3600000) 0 (generateHash env p) (JStr ''old answer'') (Some 5)\<rparr>"


text \<open>Three categorized tasks, newest first: the categories are A, A, B.\<close>

definition aab_history :: "Task list" where
  "aab_history =
     [example_task ''3'' (Some ''A'') 30, example_task ''2'' (Some ''A'') 20,
      example_task ''1'' (Some ''B'') 10]"

text \<open>
  The same five tasks, and four tasks with the categories A, A, B, B (newest first), in an
  order that is not the order of creation.
\<close>

definition baabb_shuffled :: "Task list" where
  "baabb_shuffled =
     [example_task ''4'' (Some ''A'') 40, example_task ''3'' (Some ''A'') 30,
      example_task ''5'' (Some ''B'') 50, example_task ''2'' (Some ''B'') 20,
      example_task ''1'' (Some ''B'') 10]"

definition aabb_shuffled :: "Task list" where
  "aabb_shuffled =
     [example_task ''2'' (Some ''B'') 20, example_task ''1'' (Some ''B'') 10,
      example_task ''4'' (Some ''A'') 40, example_task ''3'' (Some ''A'') 30]"

text \<open>
  Two tasks whose category is named \<open>__proto__\<close>, and three tasks with the categories
  Work, constructor, constructor.
\<close>

definition proto_history :: "Task list" where
  "proto_history =
     [example_task ''2'' (Some ''__proto__'') 20, example_task ''1'' (Some ''__proto__'') 10]"

definition constructor_history :: "Task list" where
  "constructor_history =
     [example_task ''3'' (Some ''Work'') 30, example_task ''2'' (Some ''constructor'') 20,
      example_task ''1'' (Some ''constructor'') 10]"

text \<open>
  One task of a user, and the same task (same id) after its category was removed, and
  after its category was changed.
\<close>

definition work_task :: Task where
  "work_task = example_task ''1'' (Some ''Work'') 10"

definition uncategorized_task :: Task where
  "uncategorized_task = example_task ''1'' None 10"

definition home_task :: Task where
  "home_task = example_task ''1'' (Some ''Home'') 10"

text \<open>
  Three active tasks at time 100: a LOW task without due date, an URGENT task that was due
  at 50, a HIGH task without due date.
\<close>

definition low_task :: Task where
  "low_task = (example_task ''1'' None 10)\<lparr>priority := LOW\<rparr>"

definition urgent_overdue_task :: Task where
  "urgent_overdue_task = (example_task ''2'' None 20)\<lparr>priority := URGENT, dueDate := Some 50\<rparr>"

definition high_task :: Task where
  "high_task = (example_task ''3'' None 30)\<lparr>priority := HIGH\<rparr>"


text \<open>
  An endpoint that answers every request with the given text, in a locale that prints a
  date as the number of its day. Nine tasks of which two are completed or cancelled; at
  the tenth day the tasks 2 and 8 are overdue.
\<close>

definition day :: int where
  "day = 86400000"

definition dated_env :: "string \<Rightarrow> env" where
  "dated_env s = (answering_env s)\<lparr>toLocaleDateString := (\<lambda>d. ''day '' @ show_int (d div day))\<rparr>"

definition priority_task :: "string \<Rightarrow> TaskPriority \<Rightarrow> TaskStatus \<Rightarrow> int option \<Rightarrow> Task" where
  "priority_task i p st due = (example_task i None 0)\<lparr>priority := p, status := st, dueDate := due\<rparr>"

definition mixed_tasks :: "Task list" where
  "mixed_tasks =
     [priority_task ''1'' LOW PENDING None,
      priority_task ''2'' URGENT PENDING (Some (5 * day)),
      priority_task ''3'' HIGH IN_PROGRESS None,
      priority_task ''4'' URGENT COMPLETED (Some (1 * day)),
      priority_task ''5'' HIGH CANCELLED None,
      priority_task ''6'' MEDIUM PENDING (Some (12 * day)),
      priority_task ''7'' MEDIUM IN_PROGRESS (Some (11 * day)),
      priority_task ''8'' LOW PENDING (Some (2 * day)),
      priority_task ''9'' HIGH PENDING (Some (20 * day))]"




section \<open>Properties of the cache\<close>


lemma get_absent: "cache c key = None \<Longrightarrow> CacheManager_get c now key = (None, c)"
  by (simp add: CacheManager_get_def)

lemma get_after_set_custom:
  "ct \<noteq> 0 \<Longrightarrow>
   CacheManager_get (CacheManager_set c now key v (Some ct)) now' key =
     (if now' > now + ct
      then (None, (CacheManager_set c now key v (Some ct))\<lparr>cache := (cache c)(key := None)\<rparr>)
      else (Some v, CacheManager_set c now key v (Some ct)))"
  by (simp add: CacheManager_get_def CacheManager_set_def Let_def)

text \<open>
  C1, as stated, for every ttl: it fails at ttl 0, which \<open>customTtl || this.ttl\<close>
  replaces by the store's ttl. One millisecond after \<open>set(k, v, 0)\<close> on a one-hour store
  the read still returns the value.
\<close>

theorem C1_zero_ttl_counterexample:
  "(0 :: int) < 1 \<and>
   fst (CacheManager_get
          (CacheManager_set (new_CacheManager 3600000 :: (string, jsval) CacheManager)
             0 ''k'' (JStr ''v'') (Some 0)) (0 + 1) ''k'') = Some (JStr ''v'') \<and>
   fst (CacheManager_get
          (CacheManager_set (new_CacheManager 3600000 :: (string, jsval) CacheManager)
             0 ''k'' (JStr ''v'') (Some 0)) (0 + 1) ''k'') \<noteq> None"
  by (simp add: CacheManager_get_def CacheManager_set_def new_CacheManager_def)

text \<open>
  C1, amended: for every key, value and non-zero ttl, a read at most ttl milliseconds
  after \<open>set(key, value, ttl)\<close> returns the stored value; a read more than ttl
  milliseconds after it returns null and leaves the key absent from the map; a read of
  an absent key returns null and changes nothing (\<open>get\<close> has no raising path).
\<close>

theorem C1_ttl_correctness:
  assumes "t \<noteq> 0" and "0 \<le> d"
  shows "(d \<le> t \<longrightarrow>
            fst (CacheManager_get (CacheManager_set c now key v (Some t)) (now + d) key) = Some v)
       \<and> (t < d \<longrightarrow>
            fst (CacheManager_get (CacheManager_set c now key v (Some t)) (now + d) key) = None
          \<and> cache (snd (CacheManager_get (CacheManager_set c now key v (Some t)) (now + d) key)) key = None)
       \<and> (cache c key' = None \<longrightarrow> CacheManager_get c now key' = (None, c))"
  using assms by (simp add: get_after_set_custom get_absent)

theorem C1_ttl_correctness_witness:
  "(300000 :: int) \<noteq> 0 \<and> (0 :: int) \<le> 300001
   \<and> fst (CacheManager_get
            (CacheManager_set (new_CacheManager 3600000 :: (string, jsval) CacheManager)
               1000 ''k'' (JStr ''v'') (Some 300000)) (1000 + 300000) ''k'') = Some (JStr ''v'')
   \<and> fst (CacheManager_get
            (CacheManager_set (new_CacheManager 3600000 :: (string, jsval) CacheManager)
               1000 ''k'' (JStr ''v'') (Some 300000)) (1000 + 300001) ''k'') = None
   \<and> cache (snd (CacheManager_get
            (CacheManager_set (new_CacheManager 3600000 :: (string, jsval) CacheManager)
               1000 ''k'' (JStr ''v'') (Some 300000)) (1000 + 300001) ''k'')) ''k'' = None"
  using C1_ttl_correctness [of 300000 300000 "new_CacheManager 3600000 :: (string, jsval) CacheManager"
          1000 "''k''" "JStr ''v''" "''k''"]
        C1_ttl_correctness [of 300000 300001 "new_CacheManager 3600000 :: (string, jsval) CacheManager"
          1000 "''k''" "JStr ''v''" "''k''"]
  by simp

section \<open>Properties of the wrapper\<close>


lemma usable_None [simp]: "usable None = None"
  by (simp add: usable_def)

lemma get_prop_opt: "get_prop v k = (if nullish v then Inl TypeError else Inr (opt_prop v k))"
  by (cases v) (simp_all add: nullish_def)

lemma index0_opt: "index0 v = (if nullish v then Inl TypeError else Inr (opt_index0 v))"
  by (cases v) (simp_all add: nullish_def)

lemma opt_nullish: "nullish v \<Longrightarrow> opt_prop v k = JUndefined" "nullish v \<Longrightarrow> opt_index0 v = JUndefined"
  by (auto simp: nullish_def)

lemma nullish_undefined [simp]: "nullish JUndefined"
  by (simp add: nullish_def)

text \<open>
  The property chain of the wrapper raises exactly on the bodies without a first part, and
  otherwise reads the \<open>text\<close> of that part.
\<close>

lemma extract_text_first_part:
  "extract_text body =
     (if nullish (first_part body) then Inl TypeError else Inr (opt_prop (first_part body) ''text''))"
  by (simp add: extract_text_def first_part_def bind_err_def get_prop_opt index0_opt opt_nullish)

lemma remote_call_fails_extract:
  "remote_call_fails r \<longleftrightarrow>
     (case r of
        NetworkFailure \<Rightarrow> True
      | HttpResponse st body \<Rightarrow> \<not> (200 \<le> st \<and> st < 300) \<or> isl (extract_text body))"
  by (simp add: remote_call_fails_def extract_text_first_part split: remote_outcome.splits)

lemma remote_answers_extract:
  "remote_answers env n p v \<longleftrightarrow>
     (case remote env n p of
        NetworkFailure \<Rightarrow> False
      | HttpResponse st body \<Rightarrow> 200 \<le> st \<and> st < 300 \<and> extract_text body = Inr v)"
  by (auto simp: remote_answers_def extract_text_first_part split: remote_outcome.splits)

lemma netcalls_callGeminiAPI:
  "netcalls (snd (callGeminiAPI env now prompt useCache cacheTtl fallbackFn w)) =
     (if useCache \<and> wrapper_hit env now prompt w then netcalls w else Suc (netcalls w))"
  by (auto simp: callGeminiAPI_def wrapper_hit_def axios_post_def Let_def bind_err_def
      split: prod.splits option.splits sum.splits remote_outcome.splits if_splits)

lemma callGeminiAPI_on_failure:
  assumes "\<not> (useCache \<and> wrapper_hit env now prompt w)"
      and "remote_call_fails (remote env (netcalls w) prompt)"
  shows "fst (callGeminiAPI env now prompt useCache cacheTtl fallbackFn w) =
           (case fallbackFn of
              None \<Rightarrow> Inl ai_failed
            | Some f \<Rightarrow> (case f prompt of Inr v \<Rightarrow> Inr v | Inl e \<Rightarrow> Inl ai_failed))"
  using assms
  by (auto simp: callGeminiAPI_def wrapper_hit_def axios_post_def Let_def bind_err_def remote_call_fails_extract
      split: prod.splits option.splits sum.splits remote_outcome.splits if_splits)

lemma callGeminiAPI_on_text:
  assumes "\<not> (useCache \<and> wrapper_hit env now prompt w)"
      and "remote env (netcalls w) prompt = HttpResponse st body"
      and "200 \<le> st" "st < 300" "\<not> nullish (first_part body)"
  shows "fst (callGeminiAPI env now prompt useCache cacheTtl fallbackFn w) =
           Inr (opt_prop (first_part body) ''text'')"
  using assms
  by (auto simp: callGeminiAPI_def wrapper_hit_def axios_post_def Let_def bind_err_def
        extract_text_first_part
      split: prod.splits option.splits sum.splits if_splits)

text \<open>
  C2, as stated: a response with status 200 whose first part holds no text is a malformed
  response, but the property chain does not raise on it: the wrapper returns
  \<open>undefined\<close>, stores it under the key of the prompt, and never calls the fallback.
\<close>

theorem C2_textless_response_counterexample:
  "remote (responding_env 200 textless_body) 0 ''p'' = HttpResponse 200 textless_body
   \<and> opt_prop (first_part textless_body) ''text'' = JUndefined
   \<and> (\<lambda>p. Inr (JStr (''fallback for '' @ p)) :: js_error + jsval) ''p'' = Inr (JStr ''fallback for p'')
   \<and> fst (callGeminiAPI (responding_env 200 textless_body) 0 ''p'' True 3600000
            (Some (\<lambda>p. Inr (JStr (''fallback for '' @ p)))) initial_world) = Inr JUndefined
   \<and> cache (mediumTermCache
              (snd (callGeminiAPI (responding_env 200 textless_body) 0 ''p'' True 3600000
                      (Some (\<lambda>p. Inr (JStr (''fallback for '' @ p)))) initial_world)))
         (generateHash (responding_env 200 textless_body) ''p'')
       = Some \<lparr>value = JUndefined, expiry = 3600000\<rparr>"
  by (simp add: callGeminiAPI_def responding_env_def offline_env_def textless_body_def
        initial_world_def new_CacheManager_def CacheManager_get_def CacheManager_set_def
        axios_post_def bind_err_def extract_text_def first_part_def Let_def)

text \<open>
  C2, amended: when the request is sent, and the remote call fails in that the network
  fails, the status is outside 2xx, or the body has no first part of a first candidate
  (the body, \<open>candidates\<close>, \<open>candidates[0]\<close>, \<open>content\<close>, \<open>parts\<close> or
  \<open>parts[0]\<close> is \<open>null\<close> or \<open>undefined\<close>), \<open>callGeminiAPI\<close> returns exactly
  what the fallback returns for the prompt; without a fallback, and when the fallback
  itself raises, the failure reaches the caller as the Error "Failed to generate content
  with AI". A response with a status in 2xx and a first part is not a failure: the wrapper
  returns what that part holds as \<open>text\<close>, which is \<open>undefined\<close> when it holds none.
\<close>

theorem C2_failure_semantics:
  assumes "netcalls (snd (callGeminiAPI env now prompt useCache cacheTtl fallbackFn w)) = Suc (netcalls w)"
  shows "(remote_call_fails (remote env (netcalls w) prompt) \<longrightarrow>
            (fallbackFn = Some f \<longrightarrow> f prompt = Inr v \<longrightarrow>
               fst (callGeminiAPI env now prompt useCache cacheTtl fallbackFn w) = Inr v)
          \<and> (fallbackFn = Some f \<longrightarrow> f prompt = Inl e \<longrightarrow>
               fst (callGeminiAPI env now prompt useCache cacheTtl fallbackFn w) = Inl ai_failed)
          \<and> (fallbackFn = None \<longrightarrow>
               fst (callGeminiAPI env now prompt useCache cacheTtl fallbackFn w) = Inl ai_failed))
       \<and> (remote env (netcalls w) prompt = HttpResponse st body
            \<and> 200 \<le> st \<and> st < 300 \<and> \<not> nullish (first_part body) \<longrightarrow>
            fst (callGeminiAPI env now prompt useCache cacheTtl fallbackFn w)
              = Inr (opt_prop (first_part body) ''text''))"
proof -
  have miss: "\<not> (useCache \<and> wrapper_hit env now prompt w)"
    using assms(1) by (simp add: netcalls_callGeminiAPI split: if_splits)
  have a: "remote_call_fails (remote env (netcalls w) prompt) \<Longrightarrow>
           fst (callGeminiAPI env now prompt useCache cacheTtl fallbackFn w) =
             (case fallbackFn of
                None \<Rightarrow> Inl ai_failed
              | Some f \<Rightarrow> (case f prompt of Inr v \<Rightarrow> Inr v | Inl e \<Rightarrow> Inl ai_failed))"
    by (rule callGeminiAPI_on_failure [OF miss])
  have b: "remote env (netcalls w) prompt = HttpResponse st body
            \<and> 200 \<le> st \<and> st < 300 \<and> \<not> nullish (first_part body) \<Longrightarrow>
            fst (callGeminiAPI env now prompt useCache cacheTtl fallbackFn w)
              = Inr (opt_prop (first_part body) ''text'')"
    using callGeminiAPI_on_text [OF miss, of st body cacheTtl fallbackFn] by simp
  show ?thesis using a b by auto
qed

lemma offline_fails: "remote_call_fails (remote offline_env n p)"
  by (simp add: offline_env_def remote_call_fails_def)

lemma initial_miss: "\<not> wrapper_hit env now prompt initial_world"
  by (simp add: wrapper_hit_def initial_world_def new_CacheManager_def CacheManager_get_def usable_def)

theorem C2_failure_semantics_witness:
  "netcalls (snd (callGeminiAPI offline_env 0 ''p'' True 3600000
                    (Some (\<lambda>p. Inr (JStr (''fallback for '' @ p)))) initial_world))
     = Suc (netcalls initial_world)
   \<and> remote_call_fails (remote offline_env (netcalls initial_world) ''p'')
   \<and> fst (callGeminiAPI offline_env 0 ''p'' True 3600000
            (Some (\<lambda>p. Inr (JStr (''fallback for '' @ p)))) initial_world)
       = Inr (JStr ''fallback for p'')
   \<and> remote_call_fails (remote (responding_env 500 JNull) (netcalls initial_world) ''p'')
   \<and> fst (callGeminiAPI (responding_env 500 JNull) 0 ''p'' True 3600000
            (Some (\<lambda>p. Inl ReferenceError)) initial_world) = Inl ai_failed
   \<and> remote_call_fails
         (remote (responding_env 200 (JObj [(''candidates'', JArr [])])) (netcalls initial_world) ''p'')
   \<and> fst (callGeminiAPI (responding_env 200 (JObj [(''candidates'', JArr [])])) 0 ''p'' True 3600000
            None initial_world) = Inl ai_failed
   \<and> remote (answering_env ''Hello'') (netcalls initial_world) ''p'' = HttpResponse 200 (text_body ''Hello'')
   \<and> fst (callGeminiAPI (answering_env ''Hello'') 0 ''p'' True 3600000
            (Some (\<lambda>p. Inr (JStr (''fallback for '' @ p)))) initial_world) = Inr (JStr ''Hello'')"
proof -
  have n: "netcalls (snd (callGeminiAPI env 0 ''p'' True 3600000 fb initial_world))
             = Suc (netcalls initial_world)" for env fb
    by (simp add: netcalls_callGeminiAPI initial_miss)
  have f1: "remote_call_fails (remote offline_env (netcalls initial_world) ''p'')"
    by (rule offline_fails)
  have f2: "remote_call_fails (remote (responding_env 500 JNull) (netcalls initial_world) ''p'')"
    by (simp add: responding_env_def offline_env_def remote_call_fails_def)
  have f3: "remote_call_fails
         (remote (responding_env 200 (JObj [(''candidates'', JArr [])])) (netcalls initial_world) ''p'')"
    by (simp add: responding_env_def offline_env_def remote_call_fails_def first_part_def)
  have r4: "remote (answering_env ''Hello'') (netcalls initial_world) ''p'' = HttpResponse 200 (text_body ''Hello'')"
    by (simp add: answering_env_def offline_env_def)
  have p4: "\<not> nullish (first_part (text_body ''Hello''))"
           "opt_prop (first_part (text_body ''Hello'')) ''text'' = JStr ''Hello''"
    by (simp_all add: text_body_def first_part_def nullish_def)
  have c1: "fst (callGeminiAPI offline_env 0 ''p'' True 3600000
            (Some (\<lambda>p. Inr (JStr (''fallback for '' @ p)))) initial_world)
       = Inr (JStr ''fallback for p'')"
    using C2_failure_semantics [OF n, of offline_env "Some (\<lambda>p. Inr (JStr (''fallback for '' @ p)))"
            "\<lambda>p. Inr (JStr (''fallback for '' @ p))" "JStr ''fallback for p''"] f1
    by simp
  have c2: "fst (callGeminiAPI (responding_env 500 JNull) 0 ''p'' True 3600000
            (Some (\<lambda>p. Inl ReferenceError)) initial_world) = Inl ai_failed"
    using C2_failure_semantics [OF n, of "responding_env 500 JNull" "Some (\<lambda>p. Inl ReferenceError)"
            "\<lambda>p. Inl ReferenceError" _ ReferenceError] f2
    by simp
  have c3: "fst (callGeminiAPI (responding_env 200 (JObj [(''candidates'', JArr [])])) 0 ''p'' True 3600000
            None initial_world) = Inl ai_failed"
    using C2_failure_semantics [OF n, of "responding_env 200 (JObj [(''candidates'', JArr [])])" None] f3
    by simp
  have c4: "fst (callGeminiAPI (answering_env ''Hello'') 0 ''p'' True 3600000
            (Some (\<lambda>p. Inr (JStr (''fallback for '' @ p)))) initial_world) = Inr (JStr ''Hello'')"
    using C2_failure_semantics [OF n, of "answering_env ''Hello''"
            "Some (\<lambda>p. Inr (JStr (''fallback for '' @ p)))" _ _ _ 200 "text_body ''Hello''"] r4 p4
    by simp
  show ?thesis using n f1 f2 f3 r4 c1 c2 c3 c4 by blast
qed

lemma callGeminiAPI_failure_world:
  assumes "\<not> (useCache \<and> wrapper_hit env now prompt w)"
      and "remote_call_fails (remote env (netcalls w) prompt)"
  shows "snd (callGeminiAPI env now prompt useCache cacheTtl fallbackFn w) =
           (if useCache
            then w\<lparr>mediumTermCache :=
                     snd (CacheManager_get (mediumTermCache w) now (generateHash env prompt)),
                   netcalls := Suc (netcalls w)\<rparr>
            else w\<lparr>netcalls := Suc (netcalls w)\<rparr>)"
  using assms
  by (auto simp: callGeminiAPI_def wrapper_hit_def axios_post_def Let_def bind_err_def remote_call_fails_extract
      split: prod.splits option.splits sum.splits remote_outcome.splits if_splits)

lemma get_later_after_get:
  "now \<le> now' \<Longrightarrow>
   fst (CacheManager_get (snd (CacheManager_get c now key)) now' k) = fst (CacheManager_get c now' k)"
  by (auto simp: CacheManager_get_def split: option.splits)

lemma miss_stays_miss:
  assumes "usable (fst (CacheManager_get c now key)) = None" and "now \<le> now'"
  shows "usable (fst (CacheManager_get c now' key)) = None"
  using assms by (auto simp: CacheManager_get_def usable_def split: option.splits if_splits)

text \<open>
  C10, as stated: the entry under the key of the prompt is not always left unchanged. An
  entry that has expired is deleted by the lookup that precedes the request, also when the
  request then fails and the fallback answers.
\<close>

theorem C10_expired_entry_counterexample:
  "remote_call_fails (remote offline_env (netcalls (stale_world offline_env ''p'')) ''p'')
   \<and> fst (callGeminiAPI offline_env 10 ''p'' True 3600000 (Some (\<lambda>p. Inr (JStr ''fallback'')))
             (stale_world offline_env ''p'')) = Inr (JStr ''fallback'')
   \<and> cache (mediumTermCache (stale_world offline_env ''p'')) (generateHash offline_env ''p'')
        = Some \<lparr>value = JStr ''old answer'', expiry = 5\<rparr>
   \<and> cache (mediumTermCache (snd (callGeminiAPI offline_env 10 ''p'' True 3600000
             (Some (\<lambda>p. Inr (JStr ''fallback''))) (stale_world offline_env ''p''))))
         (generateHash offline_env ''p'') = None"
  by (simp add: callGeminiAPI_def stale_world_def initial_world_def CacheManager_get_def
        CacheManager_set_def new_CacheManager_def axios_post_def offline_env_def bind_err_def
        remote_call_fails_extract Let_def)

text \<open>
  C10, amended: when the request fails and the fallback's result is returned, the wrapper
  writes nothing to the medium-term store. The store is as the initial lookup left it
  (an expired entry under the key of the prompt removed, nothing else changed), every later
  read of any key returns what it would have returned before, and a later call with the
  same prompt misses the store again.
\<close>

theorem C10_fallback_not_cached:
  assumes "netcalls (snd (callGeminiAPI env now prompt useCache cacheTtl (Some f) w)) = Suc (netcalls w)"
      and "remote_call_fails (remote env (netcalls w) prompt)"
      and "f prompt = Inr v"
      and "now \<le> now'"
  shows "fst (callGeminiAPI env now prompt useCache cacheTtl (Some f) w) = Inr v
       \<and> mediumTermCache (snd (callGeminiAPI env now prompt useCache cacheTtl (Some f) w)) =
           (if useCache
            then snd (CacheManager_get (mediumTermCache w) now (generateHash env prompt))
            else mediumTermCache w)
       \<and> fst (CacheManager_get
                (mediumTermCache (snd (callGeminiAPI env now prompt useCache cacheTtl (Some f) w))) now' k)
           = fst (CacheManager_get (mediumTermCache w) now' k)
       \<and> (useCache \<longrightarrow>
            \<not> wrapper_hit env now' prompt (snd (callGeminiAPI env now prompt useCache cacheTtl (Some f) w)))"
proof -
  have miss: "\<not> (useCache \<and> wrapper_hit env now prompt w)"
    using assms(1) by (simp add: netcalls_callGeminiAPI split: if_splits)
  note wd = callGeminiAPI_failure_world [OF miss assms(2), of cacheTtl "Some f"]
  have r: "fst (callGeminiAPI env now prompt useCache cacheTtl (Some f) w) = Inr v"
    using callGeminiAPI_on_failure [OF miss assms(2), of cacheTtl "Some f"] assms(3) by simp
  have m: "mediumTermCache (snd (callGeminiAPI env now prompt useCache cacheTtl (Some f) w)) =
           (if useCache
            then snd (CacheManager_get (mediumTermCache w) now (generateHash env prompt))
            else mediumTermCache w)"
    by (simp add: wd)
  have g: "fst (CacheManager_get
                (mediumTermCache (snd (callGeminiAPI env now prompt useCache cacheTtl (Some f) w))) now' k')
           = fst (CacheManager_get (mediumTermCache w) now' k')" for k'
    by (simp add: m get_later_after_get [OF assms(4)])
  have h: "useCache \<longrightarrow>
            \<not> wrapper_hit env now' prompt (snd (callGeminiAPI env now prompt useCache cacheTtl (Some f) w))"
  proof
    assume u: useCache
    then have "usable (fst (CacheManager_get (mediumTermCache w) now (generateHash env prompt))) = None"
      using miss by (simp add: wrapper_hit_def)
    then have "usable (fst (CacheManager_get (mediumTermCache w) now' (generateHash env prompt))) = None"
      using assms(4) by (rule miss_stays_miss)
    then show "\<not> wrapper_hit env now' prompt (snd (callGeminiAPI env now prompt useCache cacheTtl (Some f) w))"
      unfolding wrapper_hit_def using g [of "generateHash env prompt"] by simp
  qed
  show ?thesis using r m g h by blast
qed

lemma stale_miss: "\<not> wrapper_hit env 10 p (stale_world env p)"
  by (simp add: wrapper_hit_def stale_world_def initial_world_def CacheManager_get_def
        CacheManager_set_def new_CacheManager_def)

theorem C10_fallback_not_cached_witness:
  "netcalls (snd (callGeminiAPI offline_env 10 ''p'' True 3600000 (Some (\<lambda>p. Inr (JStr ''fallback'')))
                    (stale_world offline_env ''p''))) = Suc (netcalls (stale_world offline_env ''p''))
   \<and> remote_call_fails (remote offline_env (netcalls (stale_world offline_env ''p'')) ''p'')
   \<and> (10 :: int) \<le> 20
   \<and> fst (callGeminiAPI offline_env 10 ''p'' True 3600000 (Some (\<lambda>p. Inr (JStr ''fallback'')))
             (stale_world offline_env ''p'')) = Inr (JStr ''fallback'')
   \<and> \<not> wrapper_hit offline_env 20 ''p''
         (snd (callGeminiAPI offline_env 10 ''p'' True 3600000 (Some (\<lambda>p. Inr (JStr ''fallback'')))
                 (stale_world offline_env ''p'')))"
  using C10_fallback_not_cached [of offline_env 10 "''p''" True 3600000
          "\<lambda>p. Inr (JStr ''fallback'')" "stale_world offline_env ''p''" "JStr ''fallback''" 20]
  by (simp add: netcalls_callGeminiAPI offline_fails stale_miss)

section \<open>Properties of the category prediction\<close>

lemma insert_by_insort_key_on:
  assumes "\<And>b. b \<in> set ys \<Longrightarrow> (cmp x b \<le> 0 \<longleftrightarrow> f x \<le> f b)"
  shows "insert_by cmp x ys = insort_key f x ys"
  using assms by (induction ys) simp_all

lemma js_sort_Cons: "js_sort cmp (x # xs) = insert_by cmp x (js_sort cmp xs)"
  by (simp add: js_sort_def)

lemma js_sort_sort_key_on:
  assumes "\<And>a b. a \<in> set xs \<Longrightarrow> b \<in> set xs \<Longrightarrow> (cmp a b \<le> 0 \<longleftrightarrow> f a \<le> f b)"
  shows "js_sort cmp xs = sort_key f xs"
  using assms
proof (induction xs)
  case Nil
  then show ?case by (simp add: js_sort_def)
next
  case (Cons x xs)
  have "js_sort cmp xs = sort_key f xs" using Cons by simp
  moreover have "insert_by cmp x (sort_key f xs) = insort_key f x (sort_key f xs)"
    by (rule insert_by_insort_key_on) (simp add: Cons.prems)
  ultimately show ?case by (simp add: js_sort_Cons)
qed

lemma js_sort_sort_key:
  assumes "\<And>a b. cmp a b \<le> 0 \<longleftrightarrow> f a \<le> f b"
  shows "js_sort cmp xs = sort_key f xs"
  by (rule js_sort_sort_key_on) (rule assms)

lemma set_insert_by [simp]: "set (insert_by cmp x ys) = insert x (set ys)"
  by (induction ys) auto

lemma set_js_sort [simp]: "set (js_sort cmp xs) = set xs"
  by (induction xs) (simp_all add: js_sort_def)

lemma sortedTasks_sort_key: "sortedTasks_of ts = sort_key (\<lambda>t. - createdAt t) ts"
  unfolding sortedTasks_of_def by (rule js_sort_sort_key) auto

lemma set_uniq [simp]: "set (uniq xs) = set xs"
  by (simp add: uniq_def)

lemma set_own_keys_order [simp]: "set (own_keys_order ks) = set ks"
  by (auto simp: own_keys_order_def)

lemma set_enumeration_order [simp]: "set (enumeration_order fs) = set fs"
  by (auto simp: enumeration_order_def)

lemma set_map_filter:
  "set (List.map_filter f xs) = {y. \<exists>x \<in> set xs. f x = Some y}"
  by (induction xs) (auto split: option.splits)

lemma set_distinct_categories:
  "set (distinct_categories ts) = {c. \<exists>t \<in> set ts. truthy_category t = Some c}"
  by (auto simp: distinct_categories_def set_map_filter)

lemma truthy_category_Some:
  "truthy_category t = Some c \<longleftrightarrow> category t = Some c \<and> c \<noteq> []"
  by (auto simp: truthy_category_def split: option.splits)

lemma set_recentCategories:
  "set (recentCategories_of ts) \<subseteq> set (distinct_categories ts)"
proof -
  have "set (take 5 (sortedTasks_of ts)) \<subseteq> set ts"
    using set_take_subset [of 5 "sortedTasks_of ts"] by (simp add: sortedTasks_sort_key)
  then show ?thesis
    by (auto simp: recentCategories_of_def set_distinct_categories set_map_filter)
qed

text \<open>The own properties of \<open>categoryFrequency\<close>.\<close>

lemma map_fst_set_field:
  "map fst (set_field k v fs) = (if k \<in> fst ` set fs then map fst fs else map fst fs @ [k])"
proof (induction fs)
  case Nil
  then show ?case by simp
next
  case (Cons a fs)
  show ?case
  proof (cases "k = fst a")
    case True
    then show ?thesis by (cases a) simp
  next
    case False
    then show ?thesis using Cons by (cases a) auto
  qed
qed

lemma keys_set_field [simp]: "fst ` set (set_field k v fs) = insert k (fst ` set fs)"
proof -
  have "set (map fst (set_field k v fs)) = insert k (set (map fst fs))"
    unfolding map_fst_set_field by auto
  then show ?thesis by simp
qed

lemma map_of_set_field [simp]: "map_of (set_field k v fs) = (map_of fs)(k \<mapsto> v)"
  by (induction fs) (auto simp: fun_eq_iff)

lemma distinct_set_field: "distinct (map fst fs) \<Longrightarrow> distinct (map fst (set_field k v fs))"
  unfolding map_fst_set_field by auto

lemma keys_count_category:
  "fst ` set (count_category obj c) =
     (if c = ''__proto__'' then fst ` set obj else insert c (fst ` set obj))"
  by (simp add: count_category_def Let_def)

lemma keys_counted:
  "fst ` set (foldl count_category obj cs) = fst ` set obj \<union> (set cs - {''__proto__''})"
  by (induction cs arbitrary: obj) (auto simp: keys_count_category)

lemma distinct_counted:
  "distinct (map fst obj) \<Longrightarrow> distinct (map fst (foldl count_category obj cs))"
  by (induction cs arbitrary: obj) (auto simp: count_category_def Let_def distinct_set_field)

lemma keys_categoryFrequency:
  "fst ` set (categoryFrequency_entries ts) = set (distinct_categories ts) - {''__proto__''}"
  by (simp add: categoryFrequency_entries_def keys_counted distinct_categories_def)

lemma categoryFrequency_empty:
  "categoryFrequency_entries ts = [] \<longleftrightarrow> set (distinct_categories ts) \<subseteq> {''__proto__''}"
proof -
  have "categoryFrequency_entries ts = [] \<longleftrightarrow> fst ` set (categoryFrequency_entries ts) = {}"
    by simp
  then show ?thesis unfolding keys_categoryFrequency by auto
qed

lemma same_elements_set: "same_elements xs ys \<Longrightarrow> set xs = set ys"
proof -
  assume a: "same_elements xs ys"
  have c: "count_list xs x = count_list ys x" if "x \<in> set xs \<union> set ys" for x
    using a that by (auto simp: same_elements_def list_all_iff)
  show "set xs = set ys"
  proof (intro equalityI subsetI)
    fix x assume "x \<in> set xs"
    then show "x \<in> set ys" using c [of x] by (metis UnI1 count_list_0_iff)
  next
    fix x assume "x \<in> set ys"
    then show "x \<in> set xs" using c [of x] by (metis UnI2 count_list_0_iff)
  qed
qed

lemma set_sortedCategories [simp]:
  "set (sortedCategories_of env ts) = set (categoryFrequency_entries ts)"
  by (auto simp: sortedCategories_of_def Let_def dest: same_elements_set)

lemma hd_sortedCategories:
  assumes "categoryFrequency_entries ts \<noteq> []"
  shows "fst (hd (sortedCategories_of env ts)) \<in> set (distinct_categories ts)"
    and "fst (hd (sortedCategories_of env ts)) \<noteq> ''__proto__''"
proof -
  have "sortedCategories_of env ts \<noteq> []"
    using assms set_sortedCategories [of env ts] by (metis set_empty)
  then have "hd (sortedCategories_of env ts) \<in> set (categoryFrequency_entries ts)"
    using hd_in_set set_sortedCategories by blast
  then have "fst (hd (sortedCategories_of env ts)) \<in> fst ` set (categoryFrequency_entries ts)"
    by (rule imageI)
  then show "fst (hd (sortedCategories_of env ts)) \<in> set (distinct_categories ts)"
    and "fst (hd (sortedCategories_of env ts)) \<noteq> ''__proto__''"
    unfolding keys_categoryFrequency by auto
qed

text \<open>
  When no category is a name that plain objects inherit, \<open>categoryFrequency\<close> is the
  dictionary of the numbers of occurrences.
\<close>

lemma inherited_proto [simp]: "inherited_text ''__proto__'' \<noteq> None"
  by (simp add: inherited_text_def)

lemma map_of_counted_plain:
  assumes "\<forall>c \<in> set cs. inherited_text c = None"
  shows "map_of (foldl count_category [] cs) k =
           (if k \<in> set cs then Some (Count (count_list cs k)) else None)"
  using assms
proof (induction cs arbitrary: k rule: rev_induct)
  case Nil
  then show ?case by simp
next
  case (snoc c cs)
  have p: "c \<noteq> ''__proto__''" using snoc.prems by auto
  have i: "inherited_text c = None" using snoc.prems by simp
  have ih: "map_of (foldl count_category [] cs) k' =
           (if k' \<in> set cs then Some (Count (count_list cs k')) else None)" for k'
    using snoc by simp
  have z: "c \<notin> set cs \<Longrightarrow> count_list cs c = 0" by (simp add: count_list_0_iff)
  define obj where "obj = foldl count_category [] cs"
  have s: "foldl count_category [] (cs @ [c]) = count_category obj c"
    by (simp add: obj_def)
  have m: "map_of (count_category obj c) k =
             (if k = c then Some (Count (count_list cs c + 1)) else map_of obj k)"
    using p i z ih [of c, folded obj_def]
    by (auto simp: count_category_def Let_def)
  show ?case
    unfolding s m using ih [of k, folded obj_def] by auto
qed

lemma count_list_categories:
  "count_list (List.map_filter truthy_category ts) c
     = length (filter (\<lambda>t. truthy_category t = Some c) ts)"
  by (induction ts) (auto simp: map_filter_simps split: option.splits)

lemma truthy_count:
  "c \<noteq> [] \<Longrightarrow>
   length (filter (\<lambda>t. truthy_category t = Some c) ts) = length (filter (\<lambda>t. category t = Some c) ts)"
  by (simp add: truthy_category_Some)

lemma plain_categories:
  assumes "\<forall>t \<in> set ts. \<forall>c. category t = Some c \<longrightarrow> inherited_text c = None"
  shows "\<forall>c \<in> set (List.map_filter truthy_category ts). inherited_text c = None"
  using assms by (auto simp: set_map_filter truthy_category_Some)

lemma categoryFrequency_plain:
  assumes "\<forall>t \<in> set ts. \<forall>c. category t = Some c \<longrightarrow> inherited_text c = None"
      and "e \<in> set (categoryFrequency_entries ts)"
  shows "snd e = Count (length (filter (\<lambda>t. category t = Some (fst e)) ts))"
    and "fst e \<noteq> []"
proof -
  let ?cs = "List.map_filter truthy_category ts"
  let ?obj = "foldl count_category [] ?cs"
  have d: "distinct (map fst ?obj)" by (rule distinct_counted) simp
  have "e \<in> set ?obj" using assms(2) by (simp add: categoryFrequency_entries_def)
  then have "map_of ?obj (fst e) = Some (snd e)" using d by simp
  then have m: "fst e \<in> set ?cs" "snd e = Count (count_list ?cs (fst e))"
    using map_of_counted_plain [OF plain_categories [OF assms(1)], of "fst e"]
    by (auto split: if_splits)
  show ne: "fst e \<noteq> []" using m(1) by (auto simp: set_map_filter truthy_category_Some)
  show "snd e = Count (length (filter (\<lambda>t. category t = Some (fst e)) ts))"
    using m(2) ne by (simp add: count_list_categories truthy_count)
qed

lemma keys_categoryFrequency_plain:
  assumes "\<forall>t \<in> set ts. \<forall>c. category t = Some c \<longrightarrow> inherited_text c = None"
  shows "fst ` set (categoryFrequency_entries ts) = set (distinct_categories ts)"
proof -
  have "''__proto__'' \<notin> set (distinct_categories ts)"
    using plain_categories [OF assms] inherited_proto by (auto simp: distinct_categories_def)
  then show ?thesis by (simp add: keys_categoryFrequency)
qed

lemma sortedCategories_plain:
  assumes "\<forall>t \<in> set ts. \<forall>c. category t = Some c \<longrightarrow> inherited_text c = None"
  shows "sortedCategories_of env ts =
           sort_key (\<lambda>e. case snd e of Count n \<Rightarrow> - int n | Text s \<Rightarrow> 0) (categoryFrequency_entries ts)"
proof -
  have c: "is_Count (snd e)" if "e \<in> set (categoryFrequency_entries ts)" for e
    using categoryFrequency_plain(1) [OF assms that] by (simp add: is_Count_def)
  then have "list_all (\<lambda>e. is_Count (snd e)) (categoryFrequency_entries ts)"
    by (simp add: list_all_iff)
  then have "sortedCategories_of env ts = js_sort frequency_compare (categoryFrequency_entries ts)"
    by (simp add: sortedCategories_of_def)
  also have "\<dots> = sort_key (\<lambda>e. case snd e of Count n \<Rightarrow> - int n | Text s \<Rightarrow> 0)
                     (categoryFrequency_entries ts)"
  proof (rule js_sort_sort_key_on)
    fix a b
    assume "a \<in> set (categoryFrequency_entries ts)" "b \<in> set (categoryFrequency_entries ts)"
    then have "is_Count (snd a)" "is_Count (snd b)" using c by simp_all
    then show "frequency_compare a b \<le> 0 \<longleftrightarrow>
          (case snd a of Count n \<Rightarrow> - int n | Text s \<Rightarrow> 0) \<le> (case snd b of Count n \<Rightarrow> - int n | Text s \<Rightarrow> 0)"
      by (auto simp: frequency_compare_def is_Count_def split: tally.splits)
  qed
  finally show ?thesis .
qed

lemma hd_sort_key_least:
  assumes "xs \<noteq> []" and "x \<in> set xs"
  shows "f (hd (sort_key f xs)) \<le> f x"
proof -
  have s: "sorted (map f (sort_key f xs))" by simp
  have ne: "sort_key f xs \<noteq> []" using assms(1) by (metis length_sort length_0_conv)
  then obtain y ys where e: "sort_key f xs = y # ys" by (cases "sort_key f xs") auto
  have "x \<in> set (sort_key f xs)" using assms(2) by simp
  then show ?thesis using s e by auto
qed

lemma most_frequent:
  assumes "\<forall>t \<in> set ts. \<forall>c. category t = Some c \<longrightarrow> inherited_text c = None"
      and "categoryFrequency_entries ts \<noteq> []"
      and "c' \<noteq> []"
  shows "length (filter (\<lambda>t. category t = Some c') ts)
           \<le> length (filter (\<lambda>t. category t = Some (fst (hd (sortedCategories_of env ts)))) ts)"
    and "0 < length (filter (\<lambda>t. category t = Some (fst (hd (sortedCategories_of env ts)))) ts)"
    and "fst (hd (sortedCategories_of env ts)) \<noteq> []"
proof -
  let ?es = "categoryFrequency_entries ts"
  let ?f = "\<lambda>e. case snd e of Count n \<Rightarrow> - int n | Text s \<Rightarrow> (0 :: int)"
  let ?h = "hd (sortedCategories_of env ts)"
  let ?n = "\<lambda>c. length (filter (\<lambda>t. category t = Some c) ts)"
  have hin: "?h \<in> set ?es"
    using assms(2) set_sortedCategories [of env ts] by (metis hd_in_set set_empty)
  have hs: "snd ?h = Count (?n (fst ?h))" and hne: "fst ?h \<noteq> []"
    using categoryFrequency_plain [OF assms(1) hin] by simp_all
  show "fst ?h \<noteq> []" by (rule hne)
  have "fst ?h \<in> set (distinct_categories ts)"
    using hin keys_categoryFrequency_plain [OF assms(1)] by blast
  then obtain t where "t \<in> set ts" "category t = Some (fst ?h)"
    by (auto simp: set_distinct_categories truthy_category_Some)
  then show "0 < ?n (fst ?h)" by (auto simp: filter_empty_conv)
  show "?n c' \<le> ?n (fst ?h)"
  proof (cases "c' \<in> set (distinct_categories ts)")
    case True
    then obtain e where e: "e \<in> set ?es" "fst e = c'"
      using keys_categoryFrequency_plain [OF assms(1)] by (metis imageE)
    have "?f ?h \<le> ?f e"
      unfolding sortedCategories_plain [OF assms(1)] using assms(2) e(1) by (intro hd_sort_key_least)
    then show ?thesis using hs categoryFrequency_plain(1) [OF assms(1) e(1)] e(2) by simp
  next
    case False
    then have "?n c' = 0"
      using assms(3) by (auto simp: set_distinct_categories truthy_category_Some filter_empty_conv)
    then show ?thesis by simp
  qed
qed

lemma recentCategories_explicit:
  "recentCategories_of ts =
     List.map_filter (\<lambda>t. case category t of None \<Rightarrow> None | Some c \<Rightarrow> if c = [] then None else Some c)
       (take 5 (sort_key (\<lambda>t. - createdAt t) ts))"
proof -
  have "truthy_category = (\<lambda>t. case category t of None \<Rightarrow> None | Some c \<Rightarrow> if c = [] then None else Some c)"
    by (simp add: fun_eq_iff truthy_category_def)
  then show ?thesis by (simp add: recentCategories_of_def sortedTasks_sort_key)
qed

lemma predictNextCategory_fetched:
  "fetch_userTasks env u userTasks = Inr ts \<Longrightarrow>
   predictNextCategory env now u userTasks taskTitle w =
     predictNextCategory env now u (Some ts) taskTitle w"
  by (simp add: predictNextCategory_def predictNextCategory_try_def fetch_userTasks_def)


lemma predictNextCategory_empty:
  "predictNextCategory env now u (Some []) taskTitle w = (Inr JNull, w)"
  by (simp add: predictNextCategory_def predictNextCategory_try_def fetch_userTasks_def)

lemma predictNextCategory_hit:
  assumes "ts \<noteq> []"
      and "usable (fst (CacheManager_get (shortTermCache w) now (predict_cacheKey env u ts taskTitle))) = Some v"
  shows "predictNextCategory env now u (Some ts) taskTitle w =
           (Inr v, w\<lparr>shortTermCache :=
                       snd (CacheManager_get (shortTermCache w) now (predict_cacheKey env u ts taskTitle))\<rparr>)"
  using assms
  by (simp add: predictNextCategory_def predictNextCategory_try_def fetch_userTasks_def Let_def case_prod_beta)

lemma predictNextCategory_miss:
  assumes "ts \<noteq> []"
      and "usable (fst (CacheManager_get (shortTermCache w) now (predict_cacheKey env u ts taskTitle))) = None"
  shows "predictNextCategory env now u (Some ts) taskTitle w =
           (let r = predict_after_miss env now (predict_cacheKey env u ts taskTitle) ts taskTitle
                      (w\<lparr>shortTermCache :=
                           snd (CacheManager_get (shortTermCache w) now (predict_cacheKey env u ts taskTitle))\<rparr>)
            in (Inr (fst r), snd r))"
  using assms
  by (simp add: predictNextCategory_def predictNextCategory_try_def fetch_userTasks_def Let_def case_prod_beta)

lemma predict_after_miss_no_title:
  "predict_after_miss env now key ts None w = statistical_prediction env now key ts w"
  by (simp add: predict_after_miss_def)

lemma fst_statistical_prediction:
  "fst (statistical_prediction env now key ts w) =
     (case statistical_choice env ts of None \<Rightarrow> JNull | Some c \<Rightarrow> JStr c)"
  by (simp add: statistical_prediction_def split: option.splits)

lemma statistical_choice_recent:
  assumes "2 \<le> length (recentCategories_of ts)"
      and "2 \<le> length (filter (\<lambda>c. c = hd (recentCategories_of ts)) (take 3 (recentCategories_of ts)))"
      and "categoryFrequency_entries ts \<noteq> []"
  shows "statistical_choice env ts = Some (hd (recentCategories_of ts))"
  using assms by (simp add: statistical_choice_def)

lemma statistical_choice_frequent:
  assumes "\<not> (2 \<le> length (recentCategories_of ts)
          \<and> 2 \<le> length (filter (\<lambda>c. c = hd (recentCategories_of ts)) (take 3 (recentCategories_of ts))))"
      and "categoryFrequency_entries ts \<noteq> []"
  shows "statistical_choice env ts = Some (fst (hd (sortedCategories_of env ts)))"
  using assms by (auto simp: statistical_choice_def Let_def)

lemma entries_nonempty_plain:
  assumes "\<forall>t \<in> set ts. \<forall>c. category t = Some c \<longrightarrow> inherited_text c = None"
      and "\<exists>t \<in> set ts. \<exists>c. category t = Some c \<and> c \<noteq> []"
  shows "categoryFrequency_entries ts \<noteq> []"
proof -
  obtain t c where "t \<in> set ts" "category t = Some c" "c \<noteq> []" using assms(2) by blast
  then have "c \<in> set (distinct_categories ts)"
    by (auto simp: set_distinct_categories truthy_category_Some)
  then have "c \<in> fst ` set (categoryFrequency_entries ts)"
    by (simp add: keys_categoryFrequency_plain [OF assms(1)])
  then show ?thesis by auto
qed

lemma example_tally:
  "inherited_text ''A'' = None" "inherited_text ''B'' = None" "inherited_text ''Work'' = None"
  "inherited_text ''Home'' = None"
  by (simp_all add: inherited_text_def Object_prototype_functions_def)

lemma recent_baabb_shuffled:
  "sort_key (\<lambda>t. - createdAt t) baabb_shuffled =
     [example_task ''5'' (Some ''B'') 50, example_task ''4'' (Some ''A'') 40,
      example_task ''3'' (Some ''A'') 30, example_task ''2'' (Some ''B'') 20,
      example_task ''1'' (Some ''B'') 10]"
  "recentCategories_of baabb_shuffled = [''B'', ''A'', ''A'', ''B'', ''B'']"
  by (simp_all add: recentCategories_explicit baabb_shuffled_def example_task_def map_filter_simps)

lemma entries_baabb_shuffled:
  "categoryFrequency_entries baabb_shuffled = [(''A'', Count 2), (''B'', Count 3)]"
  by (simp add: categoryFrequency_entries_def count_category_def enumeration_order_def
        is_array_index_def is_digit_def baabb_shuffled_def example_task_def truthy_category_def
        map_filter_simps example_tally Let_def)

lemma choice_baabb_shuffled: "statistical_choice env baabb_shuffled = Some ''B''"
  by (simp add: statistical_choice_def recent_baabb_shuffled entries_baabb_shuffled
        sortedCategories_of_def js_sort_def frequency_compare_def is_Count_def)

lemma recent_aabb_shuffled:
  "sort_key (\<lambda>t. - createdAt t) aabb_shuffled =
     [example_task ''4'' (Some ''A'') 40, example_task ''3'' (Some ''A'') 30,
      example_task ''2'' (Some ''B'') 20, example_task ''1'' (Some ''B'') 10]"
  "recentCategories_of aabb_shuffled = [''A'', ''A'', ''B'', ''B'']"
  by (simp_all add: recentCategories_explicit aabb_shuffled_def example_task_def map_filter_simps)

lemma recent_proto:
  "sort_key (\<lambda>t. - createdAt t) proto_history = proto_history"
  "recentCategories_of proto_history = [''__proto__'', ''__proto__'']"
  by (simp_all add: recentCategories_explicit proto_history_def example_task_def map_filter_simps)

lemma choice_proto: "statistical_choice env proto_history = None"
  by (simp add: statistical_choice_def categoryFrequency_entries_def count_category_def
        enumeration_order_def proto_history_def example_task_def truthy_category_def
        map_filter_simps Let_def)

lemma initial_short_miss:
  "usable (fst (CacheManager_get (shortTermCache initial_world) now k)) = None"
  by (simp add: initial_world_def new_CacheManager_def CacheManager_get_def)

lemma statistical_on_initial:
  "ts \<noteq> [] \<Longrightarrow>
   fst (predictNextCategory env now u (Some ts) None initial_world) =
     Inr (case statistical_choice env ts of None \<Rightarrow> JNull | Some c \<Rightarrow> JStr c)"
  by (simp add: predictNextCategory_miss initial_short_miss predict_after_miss_no_title
        fst_statistical_prediction)

text \<open>
  C3, as stated. With the categories B, A, A on the three most recent tasks, two of the
  three share the category A, but the code tests the most recent category (B), which
  occurs once among them, and goes on to the most frequent category overall, B. With the
  category \<open>__proto__\<close> on both tasks of a history, the two most recent tasks share that
  category, but \<open>categoryFrequency\<close> gets no own property and the result is \<open>null\<close>.
\<close>

theorem C3_shared_category_counterexample:
  "map category (take 3 (sort_key (\<lambda>t. - createdAt t) baabb_shuffled))
     = [Some ''B'', Some ''A'', Some ''A'']
   \<and> fst (predictNextCategory offline_env 0 ''u'' (Some baabb_shuffled) None initial_world)
       = Inr (JStr ''B'')
   \<and> map category (take 3 (sort_key (\<lambda>t. - createdAt t) proto_history))
       = [Some ''__proto__'', Some ''__proto__'']
   \<and> fst (predictNextCategory offline_env 0 ''u'' (Some proto_history) None initial_world)
       = Inr JNull"
proof -
  have a: "map category (take 3 (sort_key (\<lambda>t. - createdAt t) baabb_shuffled))
     = [Some ''B'', Some ''A'', Some ''A'']"
    by (simp add: recent_baabb_shuffled example_task_def)
  have b: "fst (predictNextCategory offline_env 0 ''u'' (Some baabb_shuffled) None initial_world)
       = Inr (JStr ''B'')"
    by (subst statistical_on_initial) (simp_all add: choice_baabb_shuffled, simp add: baabb_shuffled_def)
  have c: "map category (take 3 (sort_key (\<lambda>t. - createdAt t) proto_history))
       = [Some ''__proto__'', Some ''__proto__'']"
    by (simp add: recent_proto) (simp add: proto_history_def example_task_def)
  have d: "fst (predictNextCategory offline_env 0 ''u'' (Some proto_history) None initial_world)
       = Inr JNull"
    by (subst statistical_on_initial) (simp_all add: choice_proto, simp add: proto_history_def)
  show ?thesis using a b c d by blast
qed

text \<open>
  C3, amended: let no category of the history be a name that plain objects inherit from
  \<open>Object.prototype\<close> (\<open>__proto__\<close>, \<open>constructor\<close>, \<open>toString\<close>, ...), and let
  \<open>rs\<close> be the non-empty categories of the five most recently created tasks, newest
  first. On the statistical path, if \<open>rs\<close> has at least two elements and its first one
  occurs at least twice among its first three, that category is predicted; otherwise, if
  some task has a non-empty category, a most frequently used category is predicted. In
  particular, for the categories A, A, B (newest first) the prediction is A. Without a
  taskTitle and on a miss of the short-term store, \<open>predictNextCategory\<close> returns the
  statistical prediction.
\<close>

theorem C3_recency_rule:
  assumes "\<forall>t \<in> set ts. \<forall>c. category t = Some c \<longrightarrow> inherited_text c = None"
      and "rs = List.map_filter
                  (\<lambda>t. case category t of None \<Rightarrow> None | Some c \<Rightarrow> if c = [] then None else Some c)
                  (take 5 (sort_key (\<lambda>t. - createdAt t) ts))"
  shows "(2 \<le> length rs \<and> 2 \<le> length (filter (\<lambda>c. c = hd rs) (take 3 rs))
            \<longrightarrow> fst (statistical_prediction env now key ts w) = JStr (hd rs))
       \<and> (\<not> (2 \<le> length rs \<and> 2 \<le> length (filter (\<lambda>c. c = hd rs) (take 3 rs)))
            \<and> (\<exists>t \<in> set ts. \<exists>c. category t = Some c \<and> c \<noteq> [])
            \<longrightarrow> (\<exists>c. fst (statistical_prediction env now key ts w) = JStr c \<and> c \<noteq> []
                    \<and> 0 < length (filter (\<lambda>t. category t = Some c) ts)
                    \<and> (\<forall>c'. c' \<noteq> [] \<longrightarrow>
                          length (filter (\<lambda>t. category t = Some c') ts)
                            \<le> length (filter (\<lambda>t. category t = Some c) ts))))
       \<and> (take 3 rs = [A, A, B] \<longrightarrow> fst (statistical_prediction env now key ts w) = JStr A)
       \<and> (ts \<noteq> []
            \<and> usable (fst (CacheManager_get (shortTermCache w) now (predict_cacheKey env u ts None))) = None
            \<longrightarrow> fst (predictNextCategory env now u (Some ts) None w)
                  = Inr (fst (statistical_prediction env now (predict_cacheKey env u ts None) ts w)))"
proof -
  have rs: "rs = recentCategories_of ts"
    by (simp add: assms(2) recentCategories_explicit)
  have rec: "statistical_choice env ts = Some (hd rs)"
    if h: "2 \<le> length rs" "2 \<le> length (filter (\<lambda>c. c = hd rs) (take 3 rs))"
  proof -
    have "rs \<noteq> []" using h(1) by auto
    then have "hd rs \<in> set (distinct_categories ts)"
      using set_recentCategories [of ts] hd_in_set unfolding rs by blast
    then have "hd rs \<in> fst ` set (categoryFrequency_entries ts)"
      by (simp add: keys_categoryFrequency_plain [OF assms(1)])
    then have "categoryFrequency_entries ts \<noteq> []" by auto
    then show ?thesis using h unfolding rs by (rule statistical_choice_recent [rotated 2])
  qed
  show ?thesis
  proof (intro conjI impI)
    assume "2 \<le> length rs \<and> 2 \<le> length (filter (\<lambda>c. c = hd rs) (take 3 rs))"
    then show "fst (statistical_prediction env now key ts w) = JStr (hd rs)"
      by (simp add: fst_statistical_prediction rec)
  next
    assume a: "\<not> (2 \<le> length rs \<and> 2 \<le> length (filter (\<lambda>c. c = hd rs) (take 3 rs)))
            \<and> (\<exists>t \<in> set ts. \<exists>c. category t = Some c \<and> c \<noteq> [])"
    then have ne: "categoryFrequency_entries ts \<noteq> []"
      using entries_nonempty_plain [OF assms(1)] by blast
    have c: "statistical_choice env ts = Some (fst (hd (sortedCategories_of env ts)))"
      using a ne unfolding rs by (intro statistical_choice_frequent) simp_all
    show "\<exists>c. fst (statistical_prediction env now key ts w) = JStr c \<and> c \<noteq> []
                    \<and> 0 < length (filter (\<lambda>t. category t = Some c) ts)
                    \<and> (\<forall>c'. c' \<noteq> [] \<longrightarrow>
                          length (filter (\<lambda>t. category t = Some c') ts)
                            \<le> length (filter (\<lambda>t. category t = Some c) ts))"
      using most_frequent(1) [OF assms(1) ne, of _ env]
        most_frequent(2,3) [OF assms(1) ne, of "''x''" env]
      by (intro exI [of _ "fst (hd (sortedCategories_of env ts))"])
         (simp add: fst_statistical_prediction c)
  next
    assume t: "take 3 rs = [A, A, B]"
    then have l: "2 \<le> length rs"
      by (metis length_take min.cobounded1 length_Cons list.size(3) numeral_3_eq_3 One_nat_def
            Suc_1 Suc_le_mono le_trans le_SucI)
    have h: "hd rs = A"
      using t by (metis hd_take list.sel(1) zero_less_numeral)
    have "statistical_choice env ts = Some (hd rs)"
      using l by (intro rec) (simp_all add: t h)
    then show "fst (statistical_prediction env now key ts w) = JStr A"
      by (simp add: fst_statistical_prediction h)
  next
    assume "ts \<noteq> []
        \<and> usable (fst (CacheManager_get (shortTermCache w) now (predict_cacheKey env u ts None))) = None"
    then show "fst (predictNextCategory env now u (Some ts) None w)
           = Inr (fst (statistical_prediction env now (predict_cacheKey env u ts None) ts w))"
      by (simp add: predictNextCategory_miss predict_after_miss_no_title fst_statistical_prediction)
  qed
qed

theorem C3_recency_rule_witness:
  "inherited_text ''A'' = None \<and> inherited_text ''B'' = None
   \<and> [''A'', ''A'', ''B'', ''B''] =
       List.map_filter
         (\<lambda>t. case category t of None \<Rightarrow> None | Some c \<Rightarrow> if c = [] then None else Some c)
         (take 5 (sort_key (\<lambda>t. - createdAt t) aabb_shuffled))
   \<and> fst (statistical_prediction offline_env 0 (predict_cacheKey offline_env ''u'' aabb_shuffled None)
            aabb_shuffled initial_world) = JStr ''A''
   \<and> usable (fst (CacheManager_get (shortTermCache initial_world) 0
                 (predict_cacheKey offline_env ''u'' aabb_shuffled None))) = None
   \<and> fst (predictNextCategory offline_env 0 ''u'' (Some aabb_shuffled) None initial_world)
       = Inr (JStr ''A'')
   \<and> [''B'', ''A'', ''A'', ''B'', ''B''] =
       List.map_filter
         (\<lambda>t. case category t of None \<Rightarrow> None | Some c \<Rightarrow> if c = [] then None else Some c)
         (take 5 (sort_key (\<lambda>t. - createdAt t) baabb_shuffled))
   \<and> fst (statistical_prediction offline_env 0 ''k'' baabb_shuffled initial_world) = JStr ''B''
   \<and> 0 < length (filter (\<lambda>t. category t = Some ''B'') baabb_shuffled)
   \<and> length (filter (\<lambda>t. category t = Some ''A'') baabb_shuffled)
       \<le> length (filter (\<lambda>t. category t = Some ''B'') baabb_shuffled)"
proof -
  have p1: "\<forall>t \<in> set aabb_shuffled. \<forall>c. category t = Some c \<longrightarrow> inherited_text c = None"
    by (simp add: aabb_shuffled_def example_task_def example_tally)
  have p2: "\<forall>t \<in> set baabb_shuffled. \<forall>c. category t = Some c \<longrightarrow> inherited_text c = None"
    by (simp add: baabb_shuffled_def example_task_def example_tally)
  have r1: "[''A'', ''A'', ''B'', ''B''] =
       List.map_filter
         (\<lambda>t. case category t of None \<Rightarrow> None | Some c \<Rightarrow> if c = [] then None else Some c)
         (take 5 (sort_key (\<lambda>t. - createdAt t) aabb_shuffled))"
    using recent_aabb_shuffled(2) by (simp add: recentCategories_explicit)
  have r2: "[''B'', ''A'', ''A'', ''B'', ''B''] =
       List.map_filter
         (\<lambda>t. case category t of None \<Rightarrow> None | Some c \<Rightarrow> if c = [] then None else Some c)
         (take 5 (sort_key (\<lambda>t. - createdAt t) baabb_shuffled))"
    using recent_baabb_shuffled(2) by (simp add: recentCategories_explicit)
  have m: "usable (fst (CacheManager_get (shortTermCache initial_world) 0
                 (predict_cacheKey offline_env ''u'' aabb_shuffled None))) = None"
    by (rule initial_short_miss)
  have ne: "aabb_shuffled \<noteq> []" by (simp add: aabb_shuffled_def)
  have sB: "fst (statistical_prediction offline_env 0 ''k'' baabb_shuffled initial_world) = JStr ''B''"
    by (simp add: fst_statistical_prediction choice_baabb_shuffled)
  note a = C3_recency_rule [OF p1 r1, where A = "''A''" and B = "''B''" and env = offline_env
              and now = 0 and key = "predict_cacheKey offline_env ''u'' aabb_shuffled None"
              and w = initial_world and u = "''u''"]
  note b = C3_recency_rule [OF p2 r2, where A = "''A''" and B = "''B''" and env = offline_env
              and now = 0 and key = "''k''" and w = initial_world and u = "''u''"]
  have c1: "fst (statistical_prediction offline_env 0 (predict_cacheKey offline_env ''u'' aabb_shuffled None)
            aabb_shuffled initial_world) = JStr ''A''"
    using a by simp
  have c2: "fst (predictNextCategory offline_env 0 ''u'' (Some aabb_shuffled) None initial_world)
       = Inr (JStr ''A'')"
    using a m ne c1 by simp
  have ex: "\<exists>t \<in> set baabb_shuffled. \<exists>c. category t = Some c \<and> c \<noteq> []"
    by (simp add: baabb_shuffled_def example_task_def)
  have "\<exists>c. JStr ''B'' = JStr c \<and> c \<noteq> []
            \<and> 0 < length (filter (\<lambda>t. category t = Some c) baabb_shuffled)
            \<and> (\<forall>c'. c' \<noteq> [] \<longrightarrow>
                  length (filter (\<lambda>t. category t = Some c') baabb_shuffled)
                    \<le> length (filter (\<lambda>t. category t = Some c) baabb_shuffled))"
    using b ex unfolding sB by simp
  then have c3: "0 < length (filter (\<lambda>t. category t = Some ''B'') baabb_shuffled)
       \<and> length (filter (\<lambda>t. category t = Some ''A'') baabb_shuffled)
           \<le> length (filter (\<lambda>t. category t = Some ''B'') baabb_shuffled)"
    by auto
  show ?thesis using example_tally(1,2) r1 r2 m sB c1 c2 c3 by blast
qed

text \<open>
  An evaluated instance with an inherited name: for the categories Work, constructor,
  constructor the property \<open>constructor\<close> of \<open>categoryFrequency\<close> becomes a string, and
  an engine that leaves two entries with a NaN comparison in place returns Work.
\<close>

lemma constructor_example:
  "categoryFrequency_entries constructor_history =
     [(''Work'', Count 1), (''constructor'', Text ''function Object() { [native code] }11'')]"
  "fst (predictNextCategory offline_env 0 ''u'' (Some constructor_history) None initial_world)
     = Inr (JStr ''Work'')"
proof -
  show e: "categoryFrequency_entries constructor_history =
     [(''Work'', Count 1), (''constructor'', Text ''function Object() { [native code] }11'')]"
    by (simp add: categoryFrequency_entries_def count_category_def enumeration_order_def
          is_array_index_def is_digit_def constructor_history_def example_task_def truthy_category_def
          map_filter_simps inherited_text_def Object_prototype_functions_def Let_def)
  have r: "recentCategories_of constructor_history = [''Work'', ''constructor'', ''constructor'']"
    by (simp add: recentCategories_explicit constructor_history_def example_task_def map_filter_simps)
  have "statistical_choice offline_env constructor_history = Some ''Work''"
    by (simp add: statistical_choice_def r e sortedCategories_of_def is_Count_def same_elements_def
          offline_env_def js_sort_def frequency_compare_def)
  then show "fst (predictNextCategory offline_env 0 ''u'' (Some constructor_history) None initial_world)
     = Inr (JStr ''Work'')"
    by (subst statistical_on_initial) (simp_all add: constructor_history_def)
qed

lemma choice_aab: "statistical_choice env aab_history = Some ''A''"
  by (simp add: statistical_choice_def recentCategories_explicit categoryFrequency_entries_def
        count_category_def enumeration_order_def is_array_index_def is_digit_def aab_history_def
        example_task_def truthy_category_def map_filter_simps example_tally Let_def)

lemma ai_category_prediction_none:
  "distinct_categories ts = [] \<Longrightarrow> ai_category_prediction env now key t ts w = (None, w)"
  by (simp add: ai_category_prediction_def)

lemma distinct_categories_empty:
  "distinct_categories ts = [] \<longleftrightarrow> (\<forall>t \<in> set ts. truthy_category t = None)"
proof -
  have "distinct_categories ts = [] \<longleftrightarrow> set (distinct_categories ts) = {}" by simp
  also have "\<dots> \<longleftrightarrow> (\<forall>t \<in> set ts. truthy_category t = None)"
    by (auto simp: set_distinct_categories) (metis option.exhaust)
  finally show ?thesis .
qed

lemma statistical_choice_none:
  "(\<forall>t \<in> set ts. truthy_category t = None) \<Longrightarrow> statistical_choice env ts = None"
  by (simp add: statistical_choice_def categoryFrequency_empty distinct_categories_empty [THEN iffD2] Let_def)

lemma predict_after_miss_uncategorized:
  assumes "\<forall>t \<in> set ts. truthy_category t = None"
  shows "predict_after_miss env now key ts taskTitle w = (JNull, w)"
proof -
  have d: "distinct_categories ts = []" using assms by (simp add: distinct_categories_empty)
  have s: "statistical_prediction env now key ts w = (JNull, w)"
    by (simp add: statistical_prediction_def statistical_choice_none [OF assms])
  show ?thesis
    by (simp add: predict_after_miss_def ai_category_prediction_none [OF d] s split: option.splits)
qed

lemma predictNextCategory_uncategorized:
  assumes "\<forall>t \<in> set ts. truthy_category t = None"
  shows "netcalls (snd (predictNextCategory env now u (Some ts) taskTitle w)) = netcalls w"
    and "usable (fst (CacheManager_get (shortTermCache w) now (predict_cacheKey env u ts taskTitle))) = None
         \<Longrightarrow> fst (predictNextCategory env now u (Some ts) taskTitle w) = Inr JNull"
proof -
  show "netcalls (snd (predictNextCategory env now u (Some ts) taskTitle w)) = netcalls w"
  proof (cases "ts = []")
    case True
    then show ?thesis by (simp add: predictNextCategory_empty)
  next
    case False
    show ?thesis
    proof (cases "usable (fst (CacheManager_get (shortTermCache w) now (predict_cacheKey env u ts taskTitle)))")
      case None
      then show ?thesis
        by (simp add: predictNextCategory_miss [OF False None] predict_after_miss_uncategorized [OF assms])
    next
      case (Some v)
      then show ?thesis by (simp add: predictNextCategory_hit [OF False Some])
    qed
  qed
  assume m: "usable (fst (CacheManager_get (shortTermCache w) now (predict_cacheKey env u ts taskTitle))) = None"
  show "fst (predictNextCategory env now u (Some ts) taskTitle w) = Inr JNull"
  proof (cases "ts = []")
    case True
    then show ?thesis by (simp add: predictNextCategory_empty)
  next
    case False
    show ?thesis
      by (simp add: predictNextCategory_miss [OF False m] predict_after_miss_uncategorized [OF assms])
  qed
qed

lemma find_member: "List.find P xs = Some x \<Longrightarrow> x \<in> set xs"
  by (auto simp: find_Some_iff)

lemma ai_category_prediction_member:
  assumes "ai_category_prediction env now key t ts w = (Some v, w')"
  shows "\<exists>c \<in> set (distinct_categories ts). v = JStr c"
  using assms
  by (auto simp: ai_category_prediction_def Let_def case_prod_beta
      split: if_splits sum.splits jsval.splits option.splits dest: find_member)

lemma statistical_choice_member:
  assumes "statistical_choice env ts = Some c"
  shows "c \<in> set (distinct_categories ts)"
proof -
  have ne: "categoryFrequency_entries ts \<noteq> []"
    using assms by (auto simp: statistical_choice_def Let_def split: if_splits)
  show ?thesis
  proof (cases "2 \<le> length (recentCategories_of ts)
          \<and> 2 \<le> length (filter (\<lambda>c. c = hd (recentCategories_of ts)) (take 3 (recentCategories_of ts)))")
    case True
    then have "c = hd (recentCategories_of ts)" and "recentCategories_of ts \<noteq> []"
      using assms ne by (auto simp: statistical_choice_def Let_def)
    then show ?thesis using set_recentCategories [of ts] hd_in_set by blast
  next
    case False
    then have "c = fst (hd (sortedCategories_of env ts))"
      using assms ne by (auto simp: statistical_choice_def Let_def)
    then show ?thesis using hd_sortedCategories(1) [OF ne] by simp
  qed
qed

lemma predict_after_miss_member:
  "fst (predict_after_miss env now key ts taskTitle w) = JNull
   \<or> (\<exists>c \<in> set (distinct_categories ts). fst (predict_after_miss env now key ts taskTitle w) = JStr c)"
proof -
  have s: "fst (statistical_prediction env now key ts w'') = JNull
           \<or> (\<exists>c \<in> set (distinct_categories ts). fst (statistical_prediction env now key ts w'') = JStr c)"
    for w''
    by (cases "statistical_choice env ts")
       (auto simp: fst_statistical_prediction dest: statistical_choice_member)
  show ?thesis
  proof (cases taskTitle)
    case None
    then show ?thesis using s by (simp add: predict_after_miss_def)
  next
    case (Some t)
    show ?thesis
    proof (cases "t \<noteq> [] \<and> 5 \<le> length ts")
      case False
      then show ?thesis using s Some by (auto simp: predict_after_miss_def)
    next
      case True
      obtain r w' where a: "ai_category_prediction env now key t ts w = (r, w')"
        by (cases "ai_category_prediction env now key t ts w") auto
      show ?thesis
      proof (cases r)
        case None
        then show ?thesis using s [of w'] Some True a by (simp add: predict_after_miss_def)
      next
        case (Some v)
        then show ?thesis
          using ai_category_prediction_member [of env now key t ts w v w'] \<open>taskTitle = Some t\<close> True a
          by (auto simp: predict_after_miss_def)
      qed
    qed
  qed
qed

lemma distinct_categories_member:
  "c \<in> set (distinct_categories ts) \<Longrightarrow> \<exists>t \<in> set ts. category t = Some c"
  by (auto simp: set_distinct_categories truthy_category_Some)

lemma statistical_work: "statistical_choice env [work_task] = Some ''Work''"
  by (simp add: statistical_choice_def recentCategories_explicit sortedCategories_of_def js_sort_def
        categoryFrequency_entries_def count_category_def enumeration_order_def is_array_index_def
        is_digit_def is_Count_def work_task_def example_task_def truthy_category_def map_filter_simps
        example_tally Let_def)

lemma same_key:
  "predict_cacheKey env u [uncategorized_task] taskTitle = predict_cacheKey env u [work_task] taskTitle"
  "predict_cacheKey env u [home_task] taskTitle = predict_cacheKey env u [work_task] taskTitle"
  by (simp_all add: predict_cacheKey_def uncategorized_task_def work_task_def home_task_def example_task_def)

lemma first_call_work:
  "predictNextCategory env 0 u (Some [work_task]) None initial_world =
     (Inr (JStr ''Work''),
      initial_world\<lparr>shortTermCache :=
        CacheManager_set (new_CacheManager 300000) 0 (predict_cacheKey env u [work_task] None)
          (JStr ''Work'') (Some 300000)\<rparr>)"
proof -
  have m: "usable (fst (CacheManager_get (shortTermCache initial_world) 0
             (predict_cacheKey env u [work_task] None))) = None"
    by (simp add: initial_world_def new_CacheManager_def CacheManager_get_def)
  have g: "snd (CacheManager_get (shortTermCache initial_world) 0 (predict_cacheKey env u [work_task] None))
            = new_CacheManager 300000"
    by (simp add: initial_world_def new_CacheManager_def CacheManager_get_def)
  show ?thesis
    by (simp add: predictNextCategory_miss [OF _ m] predict_after_miss_no_title g
          statistical_prediction_def statistical_work)
qed

lemma second_call_stale:
  assumes "predict_cacheKey env u ts None = predict_cacheKey env u [work_task] None" and "ts \<noteq> []"
  shows "fst (predictNextCategory env 1000 u (Some ts) None
                (snd (predictNextCategory env 0 u (Some [work_task]) None initial_world)))
           = Inr (JStr ''Work'')"
proof -
  let ?w = "snd (predictNextCategory env 0 u (Some [work_task]) None initial_world)"
  have "usable (fst (CacheManager_get (shortTermCache ?w) 1000 (predict_cacheKey env u ts None)))
          = Some (JStr ''Work'')"
    by (simp add: first_call_work assms(1) CacheManager_get_def CacheManager_set_def usable_def)
  then show ?thesis
    by (simp add: predictNextCategory_hit [OF assms(2)])
qed

text \<open>
  C7, as stated: after the category of the user's task was removed, a call made while the
  prediction for the same task ids is still in the short-term store returns that
  prediction, not \<open>null\<close>, although no task carries a category.
\<close>

theorem C7_stale_prediction_counterexample:
  "fst (predictNextCategory offline_env 0 ''u'' (Some [work_task]) None initial_world)
     = Inr (JStr ''Work'')
   \<and> category uncategorized_task = None
   \<and> fst (predictNextCategory offline_env 1000 ''u'' (Some [uncategorized_task]) None
            (snd (predictNextCategory offline_env 0 ''u'' (Some [work_task]) None initial_world)))
       = Inr (JStr ''Work'')"
proof -
  have a: "fst (predictNextCategory offline_env 0 ''u'' (Some [work_task]) None initial_world)
     = Inr (JStr ''Work'')"
    by (simp add: first_call_work)
  have b: "category uncategorized_task = None"
    by (simp add: uncategorized_task_def example_task_def)
  have c: "fst (predictNextCategory offline_env 1000 ''u'' (Some [uncategorized_task]) None
            (snd (predictNextCategory offline_env 0 ''u'' (Some [work_task]) None initial_world)))
       = Inr (JStr ''Work'')"
    by (rule second_call_stale) (simp_all add: same_key)
  show ?thesis using a b c by blast
qed

text \<open>
  C7, amended: \<open>predictNextCategory\<close> called with an empty task list returns \<open>null\<close>
  and changes nothing. Called for tasks (supplied or fetched) none of which carries a
  category (\<open>null\<close> or the empty string), it never sends a request to the remote endpoint,
  and it returns \<open>null\<close> unless the short-term store holds a live prediction under the key
  of the call (user, first ten task ids, title), which is then returned.
\<close>

theorem C7_no_history:
  "predictNextCategory env now u (Some []) taskTitle w = (Inr JNull, w)
   \<and> (fetch_userTasks env u userTasks = Inr ts \<and> (\<forall>t \<in> set ts. truthy_category t = None)
       \<longrightarrow> netcalls (snd (predictNextCategory env now u userTasks taskTitle w)) = netcalls w
         \<and> (usable (fst (CacheManager_get (shortTermCache w) now (predict_cacheKey env u ts taskTitle))) = None
            \<longrightarrow> fst (predictNextCategory env now u userTasks taskTitle w) = Inr JNull))"
  using predictNextCategory_uncategorized [where ts = ts and env = env and now = now and u = u
          and taskTitle = taskTitle and w = w]
  by (auto simp: predictNextCategory_empty predictNextCategory_fetched)

theorem C7_no_history_witness:
  "predictNextCategory offline_env 0 ''u'' (Some []) (Some ''Write report'') initial_world
     = (Inr JNull, initial_world)
   \<and> fetch_userTasks offline_env ''u'' (Some [uncategorized_task]) = Inr [uncategorized_task]
   \<and> truthy_category uncategorized_task = None
   \<and> usable (fst (CacheManager_get (shortTermCache initial_world) 0
                 (predict_cacheKey offline_env ''u'' [uncategorized_task] (Some ''Write report'')))) = None
   \<and> netcalls (snd (predictNextCategory offline_env 0 ''u'' (Some [uncategorized_task])
                       (Some ''Write report'') initial_world)) = netcalls initial_world
   \<and> fst (predictNextCategory offline_env 0 ''u'' (Some [uncategorized_task])
            (Some ''Write report'') initial_world) = Inr JNull"
proof -
  have f: "fetch_userTasks offline_env ''u'' (Some [uncategorized_task]) = Inr [uncategorized_task]"
    by (simp add: fetch_userTasks_def)
  have t: "truthy_category uncategorized_task = None"
    by (simp add: truthy_category_def uncategorized_task_def example_task_def)
  have m: "usable (fst (CacheManager_get (shortTermCache initial_world) 0
                 (predict_cacheKey offline_env ''u'' [uncategorized_task] (Some ''Write report'')))) = None"
    by (simp add: initial_world_def new_CacheManager_def CacheManager_get_def)
  show ?thesis
    using C7_no_history [where env = offline_env and now = 0 and u = "''u''"
            and taskTitle = "Some ''Write report''" and w = initial_world
            and userTasks = "Some [uncategorized_task]" and ts = "[uncategorized_task]"] f t m
    by simp
qed

text \<open>
  C9, as stated: a prediction served from the short-term store need not be a category of
  the supplied tasks. After the task's category was changed from Work to Home, the call
  made within five minutes still returns Work.
\<close>

theorem C9_stale_prediction_counterexample:
  "category home_task = Some ''Home''
   \<and> fst (predictNextCategory offline_env 1000 ''u'' (Some [home_task]) None
            (snd (predictNextCategory offline_env 0 ''u'' (Some [work_task]) None initial_world)))
       = Inr (JStr ''Work'')"
proof -
  have b: "category home_task = Some ''Home''"
    by (simp add: home_task_def example_task_def)
  have c: "fst (predictNextCategory offline_env 1000 ''u'' (Some [home_task]) None
            (snd (predictNextCategory offline_env 0 ''u'' (Some [work_task]) None initial_world)))
       = Inr (JStr ''Work'')"
    by (rule second_call_stale) (simp_all add: same_key)
  show ?thesis using b c by blast
qed

text \<open>
  C9, amended: when the short-term store holds no live prediction under the key of the
  call, \<open>predictNextCategory\<close> returns \<open>null\<close> or a string that is the category of at
  least one task of the supplied or fetched history; in particular an AI answer that
  matches no category of the history is not returned.
\<close>

theorem C9_membership:
  assumes "fetch_userTasks env u userTasks = Inr ts"
      and "usable (fst (CacheManager_get (shortTermCache w) now (predict_cacheKey env u ts taskTitle))) = None"
  shows "fst (predictNextCategory env now u userTasks taskTitle w) = Inr JNull
       \<or> (\<exists>c. fst (predictNextCategory env now u userTasks taskTitle w) = Inr (JStr c)
              \<and> (\<exists>t \<in> set ts. category t = Some c))"
proof (cases "ts = []")
  case True
  then show ?thesis
    by (simp add: predictNextCategory_fetched [OF assms(1)] predictNextCategory_empty)
next
  case False
  let ?w1 = "w\<lparr>shortTermCache :=
               snd (CacheManager_get (shortTermCache w) now (predict_cacheKey env u ts taskTitle))\<rparr>"
  have r: "fst (predictNextCategory env now u userTasks taskTitle w) =
             Inr (fst (predict_after_miss env now (predict_cacheKey env u ts taskTitle) ts taskTitle ?w1))"
    by (simp add: predictNextCategory_fetched [OF assms(1)] predictNextCategory_miss [OF False assms(2)]
          Let_def)
  show ?thesis
    using predict_after_miss_member [of env now "predict_cacheKey env u ts taskTitle" ts taskTitle ?w1]
    by (auto simp: r dest: distinct_categories_member)
qed

theorem C9_membership_witness:
  "fetch_userTasks offline_env ''u'' (Some aab_history) = Inr aab_history
   \<and> usable (fst (CacheManager_get (shortTermCache initial_world) 0
                 (predict_cacheKey offline_env ''u'' aab_history None))) = None
   \<and> fst (predictNextCategory offline_env 0 ''u'' (Some aab_history) None initial_world)
       = Inr (JStr ''A'')
   \<and> (\<exists>t \<in> set aab_history. category t = Some ''A'')"
proof -
  have f: "fetch_userTasks offline_env ''u'' (Some aab_history) = Inr aab_history"
    by (simp add: fetch_userTasks_def)
  have m: "usable (fst (CacheManager_get (shortTermCache initial_world) 0
                 (predict_cacheKey offline_env ''u'' aab_history None))) = None"
    by (simp add: initial_world_def new_CacheManager_def CacheManager_get_def)
  have ne: "aab_history \<noteq> []" by (simp add: aab_history_def)
  have v: "fst (predictNextCategory offline_env 0 ''u'' (Some aab_history) None initial_world)
       = Inr (JStr ''A'')"
    by (simp add: predictNextCategory_miss [OF ne m] predict_after_miss_no_title
          fst_statistical_prediction choice_aab)
  have "fst (predictNextCategory offline_env 0 ''u'' (Some aab_history) None initial_world) = Inr JNull
       \<or> (\<exists>c. fst (predictNextCategory offline_env 0 ''u'' (Some aab_history) None initial_world) = Inr (JStr c)
              \<and> (\<exists>t \<in> set aab_history. category t = Some c))"
    using C9_membership [OF f m] .
  then have "\<exists>t \<in> set aab_history. category t = Some ''A''"
    using v by simp
  then show ?thesis using f m v by blast
qed

section \<open>Properties of the title suggestions\<close>

lemma wrapper_hit_short [simp]:
  "wrapper_hit env now p (w\<lparr>shortTermCache := c\<rparr>) = wrapper_hit env now p w"
  by (simp add: wrapper_hit_def)

lemma callGeminiAPI_on_success:
  assumes "\<not> wrapper_hit env now prompt w"
      and "remote_answers env (netcalls w) prompt v"
  shows "callGeminiAPI env now prompt True cacheTtl fallbackFn w =
           (Inr v,
            w\<lparr>mediumTermCache :=
                 CacheManager_set (snd (CacheManager_get (mediumTermCache w) now (generateHash env prompt)))
                   now (generateHash env prompt) v (Some cacheTtl),
               netcalls := Suc (netcalls w)\<rparr>)"
  using assms
  by (auto simp: callGeminiAPI_def wrapper_hit_def axios_post_def Let_def bind_err_def
        remote_answers_extract case_prod_beta
      split: option.splits sum.splits remote_outcome.splits if_splits)

lemma netcalls_initial [simp]: "netcalls initial_world = 0"
  by (simp add: initial_world_def)

lemma answering_env_answers: "remote_answers (answering_env s) n p (JStr s)"
  by (simp add: remote_answers_def answering_env_def offline_env_def text_body_def first_part_def
        nullish_def)

lemma static_suggestions_props:
  "length (static_suggestions prefix) = 5" "\<forall>x \<in> set (static_suggestions prefix). x \<noteq> []"
  by (simp_all add: static_suggestions_def)

lemma scan_lines_props:
  "length (scan_lines s) \<le> 5" "\<forall>x \<in> set (scan_lines s). x \<noteq> []"
proof -
  show "length (scan_lines s) \<le> 5" by (simp add: scan_lines_def)
  show "\<forall>x \<in> set (scan_lines s). x \<noteq> []"
    unfolding scan_lines_def using in_set_takeD by fastforce
qed

lemma title_after_miss_answer:
  assumes "findMany env (CreatedOrAssigned userId 20) = Inr userTasks"
      and "\<not> wrapper_hit env now
               (title_prompt prefix (map title userTasks) (uniq (List.map_filter truthy_category userTasks))) w"
      and "remote_answers env (netcalls w)
               (title_prompt prefix (map title userTasks) (uniq (List.map_filter truthy_category userTasks))) v"
  shows "fst (title_after_miss env now prefix userId w) = Inr (JArr (map JStr (parse_suggestions env prefix v)))"
  using assms
  by (simp add: title_after_miss_def Let_def callGeminiAPI_on_success)

lemma generateTitleSuggestions_miss:
  assumes "3 \<le> length prefix"
      and "usable (fst (CacheManager_get (shortTermCache w) now (title_cacheKey userId prefix))) = None"
  shows "generateTitleSuggestions_try env now prefix userId w =
           title_after_miss env now prefix userId
             (w\<lparr>shortTermCache := snd (CacheManager_get (shortTermCache w) now (title_cacheKey userId prefix))\<rparr>)"
  using assms by (simp add: generateTitleSuggestions_try_def Let_def)

lemma parse_suggestions_unparseable:
  assumes "\<And>m. delimited_match (CHR 0x5B) (CHR 0x5D) s = Some m \<Longrightarrow> JSON_parse env m = None"
  shows "parse_suggestions env prefix (JStr s) =
           (case delimited_match (CHR 0x5B) (CHR 0x5D) s of
              None \<Rightarrow> scan_lines s
            | Some m \<Rightarrow> static_suggestions prefix)"
  using assms
  by (auto simp: parse_suggestions_def parse_suggestions_try_def split: option.splits)

text \<open>
  C4, as stated: for prose without brackets and without a line that begins with a quoted
  text, the second parse finds nothing, no exception is raised, and the result is the
  empty list, not five strings.
\<close>

theorem C4_empty_suggestions_counterexample:
  "3 \<le> length ''upd''
   \<and> remote_answers (answering_env ''Sorry, I cannot help.'') 0
        (title_prompt ''upd'' [] []) (JStr ''Sorry, I cannot help.'')
   \<and> delimited_match (CHR 0x5B) (CHR 0x5D) ''Sorry, I cannot help.'' = None
   \<and> fst (generateTitleSuggestions (answering_env ''Sorry, I cannot help.'') 0 ''upd'' ''u''
            initial_world) = Inr (JArr [])"
proof -
  let ?env = "answering_env ''Sorry, I cannot help.''"
  have d: "delimited_match (CHR 0x5B) (CHR 0x5D) ''Sorry, I cannot help.'' = None"
    by (simp add: delimited_match_def)
  have f: "findMany ?env (CreatedOrAssigned ''u'' 20) = Inr []"
    by (simp add: answering_env_def offline_env_def)
  have m: "usable (fst (CacheManager_get (shortTermCache initial_world) 0 (title_cacheKey ''u'' ''upd''))) = None"
    by (simp add: initial_world_def new_CacheManager_def CacheManager_get_def)
  have s: "scan_lines ''Sorry, I cannot help.'' = []"
    by (simp add: scan_lines_def trim_def is_space_def startsWith_def dq_def)
  have p: "parse_suggestions ?env ''upd'' (JStr ''Sorry, I cannot help.'') = []"
    by (simp add: parse_suggestions_def parse_suggestions_try_def d s)
  have "fst (title_after_miss ?env 0 ''upd'' ''u''
          (initial_world\<lparr>shortTermCache :=
             snd (CacheManager_get (shortTermCache initial_world) 0 (title_cacheKey ''u'' ''upd''))\<rparr>))
        = Inr (JArr (map JStr (parse_suggestions ?env ''upd'' (JStr ''Sorry, I cannot help.''))))"
    by (rule title_after_miss_answer [OF f])
       (simp_all add: initial_miss answering_env_answers)
  then have "fst (generateTitleSuggestions ?env 0 ''upd'' ''u'' initial_world) = Inr (JArr [])"
    by (simp add: generateTitleSuggestions_def generateTitleSuggestions_miss [OF _ m] p Let_def)
  then show ?thesis using d answering_env_answers by simp
qed

text \<open>
  C4, amended: for every prefix of at least three characters, when the request is sent
  (no cached suggestions, no cached response, the tasks were read) and answered with a
  text that holds no parseable bracketed array, \<open>generateTitleSuggestions\<close> returns
  normally: the five static suggestions when the text has a bracketed part that
  \<open>JSON.parse\<close> rejects, and otherwise the quoted texts found by the line scan. The
  result has at most five strings, none of them empty; it may be the empty list.
\<close>

theorem C4_malformed_output:
  assumes "3 \<le> length prefix"
      and "findMany env (CreatedOrAssigned userId 20) = Inr userTasks"
      and "usable (fst (CacheManager_get (shortTermCache w) now (title_cacheKey userId prefix))) = None"
      and "\<not> wrapper_hit env now
               (title_prompt prefix (map title userTasks) (uniq (List.map_filter truthy_category userTasks))) w"
      and "remote_answers env (netcalls w)
               (title_prompt prefix (map title userTasks) (uniq (List.map_filter truthy_category userTasks)))
               (JStr s)"
      and "\<And>m. delimited_match (CHR 0x5B) (CHR 0x5D) s = Some m \<Longrightarrow> JSON_parse env m = None"
  shows "\<exists>xs. fst (generateTitleSuggestions env now prefix userId w) = Inr (JArr (map JStr xs))
              \<and> xs = (case delimited_match (CHR 0x5B) (CHR 0x5D) s of
                         None \<Rightarrow> scan_lines s
                       | Some m \<Rightarrow> static_suggestions prefix)
              \<and> length xs \<le> 5 \<and> (\<forall>x \<in> set xs. x \<noteq> [])"
proof -
  let ?xs = "case delimited_match (CHR 0x5B) (CHR 0x5D) s of
               None \<Rightarrow> scan_lines s
             | Some m \<Rightarrow> static_suggestions prefix"
  let ?w1 = "w\<lparr>shortTermCache := snd (CacheManager_get (shortTermCache w) now (title_cacheKey userId prefix))\<rparr>"
  have "fst (title_after_miss env now prefix userId ?w1)
          = Inr (JArr (map JStr (parse_suggestions env prefix (JStr s))))"
    by (rule title_after_miss_answer [OF assms(2)]) (simp_all add: assms(4,5))
  then have r: "fst (generateTitleSuggestions env now prefix userId w) = Inr (JArr (map JStr ?xs))"
    by (simp add: generateTitleSuggestions_def generateTitleSuggestions_miss [OF assms(1,3)] Let_def
          parse_suggestions_unparseable [OF assms(6)])
  have "length ?xs \<le> 5 \<and> (\<forall>x \<in> set ?xs. x \<noteq> [])"
    using static_suggestions_props [of prefix] scan_lines_props [of s]
    by (auto split: option.splits)
  then show ?thesis using r by blast
qed

theorem C4_malformed_output_witness:
  "3 \<le> length ''upd''
   \<and> findMany (answering_env ''Try: [oops]'') (CreatedOrAssigned ''u'' 20) = Inr []
   \<and> usable (fst (CacheManager_get (shortTermCache initial_world) 0 (title_cacheKey ''u'' ''upd''))) = None
   \<and> \<not> wrapper_hit (answering_env ''Try: [oops]'') 0
         (title_prompt ''upd'' (map title []) (uniq (List.map_filter truthy_category []))) initial_world
   \<and> remote_answers (answering_env ''Try: [oops]'') (netcalls initial_world)
         (title_prompt ''upd'' (map title []) (uniq (List.map_filter truthy_category [])))
         (JStr ''Try: [oops]'')
   \<and> delimited_match (CHR 0x5B) (CHR 0x5D) ''Try: [oops]'' = Some ''[oops]''
   \<and> JSON_parse (answering_env ''Try: [oops]'') ''[oops]'' = None
   \<and> fst (generateTitleSuggestions (answering_env ''Try: [oops]'') 0 ''upd'' ''u'' initial_world)
       = Inr (JArr (map JStr (static_suggestions ''upd'')))"
proof -
  let ?env = "answering_env ''Try: [oops]''"
  have h1: "3 \<le> length ''upd''" by simp
  have h2: "findMany ?env (CreatedOrAssigned ''u'' 20) = Inr []"
    by (simp add: answering_env_def offline_env_def)
  have h3: "usable (fst (CacheManager_get (shortTermCache initial_world) 0 (title_cacheKey ''u'' ''upd''))) = None"
    by (simp add: initial_world_def new_CacheManager_def CacheManager_get_def)
  have h4: "\<not> wrapper_hit ?env 0
         (title_prompt ''upd'' (map title []) (uniq (List.map_filter truthy_category []))) initial_world"
    by (rule initial_miss)
  have h5: "remote_answers ?env (netcalls initial_world)
         (title_prompt ''upd'' (map title []) (uniq (List.map_filter truthy_category [])))
         (JStr ''Try: [oops]'')"
    by (rule answering_env_answers)
  have d: "delimited_match (CHR 0x5B) (CHR 0x5D) ''Try: [oops]'' = Some ''[oops]''"
    by (simp add: delimited_match_def)
  have j: "JSON_parse ?env m = None" for m
    by (simp add: answering_env_def offline_env_def)
  have "fst (generateTitleSuggestions ?env 0 ''upd'' ''u'' initial_world)
       = Inr (JArr (map JStr (static_suggestions ''upd'')))"
    using C4_malformed_output [OF h1 h2 h3 h4 h5 j] by (simp add: d)
  then show ?thesis using h1 h2 h3 h4 h5 d j by blast
qed

section \<open>Properties of the prioritization fallback\<close>

lemma fallback_compare_key:
  "fallback_compare now a b \<le> 0 \<longleftrightarrow> spec_priority_key now a \<le> spec_priority_key now b"
  by (cases "priority a"; cases "priority b"; cases "dueDate a"; cases "dueDate b")
     (auto simp: fallback_compare_def spec_priority_key_def priorityOrder_def isOverdue_def
        less_eq_prod_def less_prod_def Let_def)

lemma fallback_sort_is_spec_order:
  "js_sort (fallback_compare now) tasks = spec_fallback_order now tasks"
  unfolding spec_fallback_order_def
  by (rule js_sort_sort_key) (rule fallback_compare_key)

lemma enumeration_order_names:
  "\<forall>f \<in> set fs. \<not> is_array_index (fst f) \<Longrightarrow> enumeration_order fs = fs"
  by (simp add: enumeration_order_def filter_empty_conv [THEN iffD2] filter_id_conv [THEN iffD2])

lemma prioritization_result_fallback:
  "prioritization_result (fallback_prioritization env now activeTasks) =
     JObj
      [(''message'',
        JStr ''Here are your prioritized tasks based on urgency, importance, and deadlines.''),
       (''prioritizedTasks'',
        JArr (map (prioritized_entry env) (take 5 (spec_fallback_order now activeTasks)))),
       (''logic'', JStr ''Tasks are prioritized based on urgency, priority level, and due date.''),
       (''atRiskTasks'', JArr []),
       (''suggestions'', JArr [])]"
  by (simp add: prioritization_result_def fallback_prioritization_def own_properties_def
        fallback_sort_is_spec_order Let_def enumeration_order_names is_array_index_def is_digit_def)

lemma generateTaskPrioritization_miss:
  assumes "activeTasks_of userTasks \<noteq> []"
      and "usable (fst (CacheManager_get (mediumTermCache w) now
                     (prioritization_cacheKey env userId (activeTasks_of userTasks)))) = None"
  shows "generateTaskPrioritization_try env now userId userTasks w =
           prioritization_after_miss env now (prioritization_cacheKey env userId (activeTasks_of userTasks))
             (activeTasks_of userTasks)
             (w\<lparr>mediumTermCache :=
                  snd (CacheManager_get (mediumTermCache w) now
                         (prioritization_cacheKey env userId (activeTasks_of userTasks)))\<rparr>)"
proof -
  have "userTasks \<noteq> []" using assms(1) by (auto simp: activeTasks_of_def)
  then show ?thesis using assms by (simp add: generateTaskPrioritization_try_def Let_def)
qed

lemma prioritization_after_miss_unparseable:
  assumes "fst (callGeminiAPI env now (prioritization_prompt env (map (taskForAI env now) activeTasks))
                  True 3600000 None w) = Inr v"
      and "isl (parse_prioritization_try env v)"
  shows "fst (prioritization_after_miss env now cacheKey activeTasks w) =
           Inr (prioritization_result (fallback_prioritization env now activeTasks))"
  using assms
  by (auto simp: prioritization_after_miss_def Let_def split: sum.splits)

lemma unparseable_response:
  assumes "\<And>s m. v = JStr s \<Longrightarrow> delimited_match (CHR 0x7B) (CHR 0x7D) s = Some m \<Longrightarrow> JSON_parse env m = None"
  shows "isl (parse_prioritization_try env v)"
  using assms
  by (cases v) (auto simp: parse_prioritization_try_def split: option.splits)

lemma prioritized_entry_explicit:
  "prioritized_entry env =
     (\<lambda>t. JObj
        [(''id'', JStr (task_id t)),
         (''title'', JStr (title t)),
         (''reason'',
          JStr ((case priority t of
                   LOW \<Rightarrow> ''LOW'' | MEDIUM \<Rightarrow> ''MEDIUM'' | HIGH \<Rightarrow> ''HIGH'' | URGENT \<Rightarrow> ''URGENT'')
                @ '' priority''
                @ (case dueDate t of None \<Rightarrow> [] | Some d \<Rightarrow> '', due '' @ toLocaleDateString env d)))])"
  by (simp add: fun_eq_iff prioritized_entry_def show_priority_def)

lemma spec_order_three:
  assumes "priority t1 = LOW" "\<forall>d. dueDate t1 = Some d \<longrightarrow> now \<le> d"
      and "priority t2 = URGENT" "\<exists>d. dueDate t2 = Some d \<and> d < now"
      and "priority t3 = HIGH" "\<forall>d. dueDate t3 = Some d \<longrightarrow> now \<le> d"
  shows "sort_key (spec_priority_key now) [t1, t2, t3] = [t2, t3, t1]"
proof -
  have o: "\<not> (case dueDate t1 of None \<Rightarrow> False | Some d \<Rightarrow> d < now)"
          "(case dueDate t2 of None \<Rightarrow> False | Some d \<Rightarrow> d < now)"
          "\<not> (case dueDate t3 of None \<Rightarrow> False | Some d \<Rightarrow> d < now)"
    using assms(2,4,6) by (auto split: option.splits)
  show ?thesis
    using assms(1,3,5) o
    by (simp add: spec_priority_key_def less_eq_prod_def less_prod_def)
qed

lemma wrapper_hit_after_get [simp]:
  "wrapper_hit env now p (w\<lparr>mediumTermCache := snd (CacheManager_get (mediumTermCache w) now k)\<rparr>)
     = wrapper_hit env now p w"
  by (simp add: wrapper_hit_def get_later_after_get)

text \<open>
  C6: let \<open>active\<close> be the tasks that are neither completed nor cancelled. When the
  response of the wrapper cannot be parsed (it is not a string, it has no part in braces,
  or \<open>JSON.parse\<close> rejects that part), the result carries as \<open>prioritizedTasks\<close> the
  first five tasks of \<open>active\<close> in the order of the specification (overdue first, then
  priority rank, then ascending due date, no due date last), each with its id, its title
  and the reason made of its priority and, when it has one, its due date. For a LOW task
  not overdue, an URGENT task overdue and a HIGH task not overdue, all active, the URGENT
  task comes first.
\<close>

theorem C6_fallback_ordering:
  assumes "active = filter (\<lambda>t. status t \<noteq> COMPLETED \<and> status t \<noteq> CANCELLED) userTasks"
      and "active \<noteq> []"
      and "usable (fst (CacheManager_get (mediumTermCache w) now
                     (prioritization_cacheKey env userId active))) = None"
      and "fst (callGeminiAPI env now
                  (prioritization_prompt env (map (taskForAI env now) active))
                  True 3600000 None
                  (w\<lparr>mediumTermCache :=
                       snd (CacheManager_get (mediumTermCache w) now
                              (prioritization_cacheKey env userId active))\<rparr>))
             = Inr v"
      and "\<And>s m. v = JStr s \<Longrightarrow> delimited_match (CHR 0x7B) (CHR 0x7D) s = Some m
                   \<Longrightarrow> JSON_parse env m = None"
  shows "fst (generateTaskPrioritization env now userId userTasks w) =
           Inr (JObj
                 [(''message'',
                   JStr ''Here are your prioritized tasks based on urgency, importance, and deadlines.''),
                  (''prioritizedTasks'',
                   JArr (map (\<lambda>t. JObj
                                [(''id'', JStr (task_id t)),
                                 (''title'', JStr (title t)),
                                 (''reason'',
                                  JStr ((case priority t of
                                           LOW \<Rightarrow> ''LOW'' | MEDIUM \<Rightarrow> ''MEDIUM''
                                         | HIGH \<Rightarrow> ''HIGH'' | URGENT \<Rightarrow> ''URGENT'')
                                        @ '' priority''
                                        @ (case dueDate t of
                                             None \<Rightarrow> []
                                           | Some d \<Rightarrow> '', due '' @ toLocaleDateString env d)))])
                          (take 5 (sort_key (spec_priority_key now) active)))),
                  (''logic'', JStr ''Tasks are prioritized based on urgency, priority level, and due date.''),
                  (''atRiskTasks'', JArr []),
                  (''suggestions'', JArr [])])
       \<and> (active = [t1, t2, t3]
            \<and> priority t1 = LOW \<and> (\<forall>d. dueDate t1 = Some d \<longrightarrow> now \<le> d)
            \<and> priority t2 = URGENT \<and> (\<exists>d. dueDate t2 = Some d \<and> d < now)
            \<and> priority t3 = HIGH \<and> (\<forall>d. dueDate t3 = Some d \<longrightarrow> now \<le> d)
          \<longrightarrow> take 5 (sort_key (spec_priority_key now) active) = [t2, t3, t1])"
proof -
  have a: "active = activeTasks_of userTasks"
    by (simp add: assms(1) activeTasks_of_def)
  have "fst (generateTaskPrioritization env now userId userTasks w) =
          Inr (prioritization_result (fallback_prioritization env now active))"
    using assms(2,3,4) unparseable_response [OF assms(5)] unfolding a
    by (simp add: generateTaskPrioritization_def Let_def generateTaskPrioritization_miss
          prioritization_after_miss_unparseable)
  then have r: "fst (generateTaskPrioritization env now userId userTasks w) =
           Inr (JObj
                 [(''message'',
                   JStr ''Here are your prioritized tasks based on urgency, importance, and deadlines.''),
                  (''prioritizedTasks'',
                   JArr (map (prioritized_entry env) (take 5 (sort_key (spec_priority_key now) active)))),
                  (''logic'', JStr ''Tasks are prioritized based on urgency, priority level, and due date.''),
                  (''atRiskTasks'', JArr []),
                  (''suggestions'', JArr [])])"
    by (simp add: prioritization_result_fallback spec_fallback_order_def)
  have o: "take 5 (sort_key (spec_priority_key now) active) = [t2, t3, t1]"
    if "active = [t1, t2, t3]
            \<and> priority t1 = LOW \<and> (\<forall>d. dueDate t1 = Some d \<longrightarrow> now \<le> d)
            \<and> priority t2 = URGENT \<and> (\<exists>d. dueDate t2 = Some d \<and> d < now)
            \<and> priority t3 = HIGH \<and> (\<forall>d. dueDate t3 = Some d \<longrightarrow> now \<le> d)"
  proof -
    have "sort_key (spec_priority_key now) [t1, t2, t3] = [t2, t3, t1]"
      using that by (intro spec_order_three) blast+
    then show ?thesis using that by simp
  qed
  show ?thesis
    using o unfolding r prioritized_entry_explicit by blast
qed


lemma show_small:
  "show_int 2 = ''2''" "show_int 5 = ''5''" "show_int 11 = ''11''" "show_int 20 = ''20''"
  by code_simp+

lemma mixed_active:
  "filter (\<lambda>t. status t \<noteq> COMPLETED \<and> status t \<noteq> CANCELLED) mixed_tasks =
     [priority_task ''1'' LOW PENDING None,
      priority_task ''2'' URGENT PENDING (Some (5 * day)),
      priority_task ''3'' HIGH IN_PROGRESS None,
      priority_task ''6'' MEDIUM PENDING (Some (12 * day)),
      priority_task ''7'' MEDIUM IN_PROGRESS (Some (11 * day)),
      priority_task ''8'' LOW PENDING (Some (2 * day)),
      priority_task ''9'' HIGH PENDING (Some (20 * day))]"
  by (simp add: mixed_tasks_def priority_task_def)

lemma mixed_order:
  "take 5 (sort_key (spec_priority_key (10 * day))
             [priority_task ''1'' LOW PENDING None,
              priority_task ''2'' URGENT PENDING (Some (5 * day)),
              priority_task ''3'' HIGH IN_PROGRESS None,
              priority_task ''6'' MEDIUM PENDING (Some (12 * day)),
              priority_task ''7'' MEDIUM IN_PROGRESS (Some (11 * day)),
              priority_task ''8'' LOW PENDING (Some (2 * day)),
              priority_task ''9'' HIGH PENDING (Some (20 * day))]) =
     [priority_task ''2'' URGENT PENDING (Some (5 * day)),
      priority_task ''8'' LOW PENDING (Some (2 * day)),
      priority_task ''9'' HIGH PENDING (Some (20 * day)),
      priority_task ''3'' HIGH IN_PROGRESS None,
      priority_task ''7'' MEDIUM IN_PROGRESS (Some (11 * day))]"
  by (simp add: spec_priority_key_def priority_task_def day_def less_eq_prod_def less_prod_def)

lemma dated_env_answers: "remote_answers (dated_env s) n p (JStr s)"
  by (simp add: remote_answers_def dated_env_def answering_env_def offline_env_def text_body_def
        first_part_def nullish_def)

lemma dated_env_date: "toLocaleDateString (dated_env s) d = ''day '' @ show_int (d div day)"
  by (simp add: dated_env_def)

lemma show_zero: "show_int 0 = ''0''"
  by code_simp

theorem C6_fallback_ordering_witness:
  "filter (\<lambda>t. status t \<noteq> COMPLETED \<and> status t \<noteq> CANCELLED) mixed_tasks =
     [priority_task ''1'' LOW PENDING None,
      priority_task ''2'' URGENT PENDING (Some (5 * day)),
      priority_task ''3'' HIGH IN_PROGRESS None,
      priority_task ''6'' MEDIUM PENDING (Some (12 * day)),
      priority_task ''7'' MEDIUM IN_PROGRESS (Some (11 * day)),
      priority_task ''8'' LOW PENDING (Some (2 * day)),
      priority_task ''9'' HIGH PENDING (Some (20 * day))]
   \<and> delimited_match (CHR 0x7B) (CHR 0x7D) ''no json here'' = None
   \<and> fst (generateTaskPrioritization (dated_env ''no json here'') (10 * day) ''u'' mixed_tasks
            initial_world) =
       Inr (JObj
             [(''message'',
               JStr ''Here are your prioritized tasks based on urgency, importance, and deadlines.''),
              (''prioritizedTasks'',
               JArr [JObj [(''id'', JStr ''2''), (''title'', JStr ''Task 2''),
                           (''reason'', JStr ''URGENT priority, due day 5'')],
                     JObj [(''id'', JStr ''8''), (''title'', JStr ''Task 8''),
                           (''reason'', JStr ''LOW priority, due day 2'')],
                     JObj [(''id'', JStr ''9''), (''title'', JStr ''Task 9''),
                           (''reason'', JStr ''HIGH priority, due day 20'')],
                     JObj [(''id'', JStr ''3''), (''title'', JStr ''Task 3''),
                           (''reason'', JStr ''HIGH priority'')],
                     JObj [(''id'', JStr ''7''), (''title'', JStr ''Task 7''),
                           (''reason'', JStr ''MEDIUM priority, due day 11'')]]),
              (''logic'', JStr ''Tasks are prioritized based on urgency, priority level, and due date.''),
              (''atRiskTasks'', JArr []),
              (''suggestions'', JArr [])])
   \<and> filter (\<lambda>t. status t \<noteq> COMPLETED \<and> status t \<noteq> CANCELLED)
        [low_task, urgent_overdue_task, high_task] = [low_task, urgent_overdue_task, high_task]
   \<and> priority low_task = LOW \<and> dueDate low_task = None
   \<and> priority urgent_overdue_task = URGENT \<and> dueDate urgent_overdue_task = Some 50
   \<and> priority high_task = HIGH \<and> dueDate high_task = None
   \<and> fst (generateTaskPrioritization (dated_env ''no json here'') 100 ''u''
            [low_task, urgent_overdue_task, high_task] initial_world) =
       Inr (JObj
             [(''message'',
               JStr ''Here are your prioritized tasks based on urgency, importance, and deadlines.''),
              (''prioritizedTasks'',
               JArr [JObj [(''id'', JStr ''2''), (''title'', JStr ''Task 2''),
                           (''reason'', JStr ''URGENT priority, due day 0'')],
                     JObj [(''id'', JStr ''3''), (''title'', JStr ''Task 3''),
                           (''reason'', JStr ''HIGH priority'')],
                     JObj [(''id'', JStr ''1''), (''title'', JStr ''Task 1''),
                           (''reason'', JStr ''LOW priority'')]]),
              (''logic'', JStr ''Tasks are prioritized based on urgency, priority level, and due date.''),
              (''atRiskTasks'', JArr []),
              (''suggestions'', JArr [])])"
proof -
  let ?env = "dated_env ''no json here''"
  have d: "delimited_match (CHR 0x7B) (CHR 0x7D) ''no json here'' = None"
    by (simp add: delimited_match_def)
  have m: "usable (fst (CacheManager_get (mediumTermCache initial_world) now k)) = None" for now k
    by (simp add: initial_world_def new_CacheManager_def CacheManager_get_def)
  have call: "fst (callGeminiAPI ?env now p True 3600000 None
                     (initial_world\<lparr>mediumTermCache :=
                        snd (CacheManager_get (mediumTermCache initial_world) now k)\<rparr>))
                = Inr (JStr ''no json here'')" for now p k
    by (subst callGeminiAPI_on_success [where v = "JStr ''no json here''"])
       (simp_all add: initial_miss dated_env_answers)
  have u: "JStr ''no json here'' = JStr s \<Longrightarrow> delimited_match (CHR 0x7B) (CHR 0x7D) s = Some m'
             \<Longrightarrow> JSON_parse ?env m' = None" for s m'
    using d by auto
  let ?active = "filter (\<lambda>t. status t \<noteq> COMPLETED \<and> status t \<noteq> CANCELLED) mixed_tasks"
  have a1: "?active \<noteq> []" by (simp add: mixed_active)
  note t1 = C6_fallback_ordering [where now = "10 * day" and userId = "''u''" and env = ?env
              and w = initial_world and userTasks = mixed_tasks and v = "JStr ''no json here''",
              OF refl a1 m call u]
  have r1: "fst (generateTaskPrioritization ?env (10 * day) ''u'' mixed_tasks initial_world) =
       Inr (JObj
             [(''message'',
               JStr ''Here are your prioritized tasks based on urgency, importance, and deadlines.''),
              (''prioritizedTasks'',
               JArr [JObj [(''id'', JStr ''2''), (''title'', JStr ''Task 2''),
                           (''reason'', JStr ''URGENT priority, due day 5'')],
                     JObj [(''id'', JStr ''8''), (''title'', JStr ''Task 8''),
                           (''reason'', JStr ''LOW priority, due day 2'')],
                     JObj [(''id'', JStr ''9''), (''title'', JStr ''Task 9''),
                           (''reason'', JStr ''HIGH priority, due day 20'')],
                     JObj [(''id'', JStr ''3''), (''title'', JStr ''Task 3''),
                           (''reason'', JStr ''HIGH priority'')],
                     JObj [(''id'', JStr ''7''), (''title'', JStr ''Task 7''),
                           (''reason'', JStr ''MEDIUM priority, due day 11'')]]),
              (''logic'', JStr ''Tasks are prioritized based on urgency, priority level, and due date.''),
              (''atRiskTasks'', JArr []),
              (''suggestions'', JArr [])])"
    using t1 [THEN conjunct1] unfolding mixed_active mixed_order
    by (simp add: priority_task_def example_task_def dated_env_date show_small day_def)
  let ?three = "[low_task, urgent_overdue_task, high_task]"
  have f3: "filter (\<lambda>t. status t \<noteq> COMPLETED \<and> status t \<noteq> CANCELLED) ?three = ?three"
    by (simp add: low_task_def urgent_overdue_task_def high_task_def example_task_def)
  have p3: "priority low_task = LOW \<and> dueDate low_task = None
   \<and> priority urgent_overdue_task = URGENT \<and> dueDate urgent_overdue_task = Some 50
   \<and> priority high_task = HIGH \<and> dueDate high_task = None"
    by (simp add: low_task_def urgent_overdue_task_def high_task_def example_task_def)
  note t2 = C6_fallback_ordering [where now = 100 and userId = "''u''" and env = ?env
              and w = initial_world and userTasks = ?three and v = "JStr ''no json here''"
              and ?t1.0 = low_task and ?t2.0 = urgent_overdue_task and ?t3.0 = high_task,
              OF f3 [symmetric] _ m call u]
  have o: "take 5 (sort_key (spec_priority_key 100) ?three) = [urgent_overdue_task, high_task, low_task]"
    using t2 p3 by simp
  have r2: "fst (generateTaskPrioritization ?env 100 ''u'' ?three initial_world) =
       Inr (JObj
             [(''message'',
               JStr ''Here are your prioritized tasks based on urgency, importance, and deadlines.''),
              (''prioritizedTasks'',
               JArr [JObj [(''id'', JStr ''2''), (''title'', JStr ''Task 2''),
                           (''reason'', JStr ''URGENT priority, due day 0'')],
                     JObj [(''id'', JStr ''3''), (''title'', JStr ''Task 3''),
                           (''reason'', JStr ''HIGH priority'')],
                     JObj [(''id'', JStr ''1''), (''title'', JStr ''Task 1''),
                           (''reason'', JStr ''LOW priority'')]]),
              (''logic'', JStr ''Tasks are prioritized based on urgency, priority level, and due date.''),
              (''atRiskTasks'', JArr []),
              (''suggestions'', JArr [])])"
    using t2 [THEN conjunct1] unfolding o
    by (simp add: low_task_def urgent_overdue_task_def high_task_def example_task_def dated_env_date
          show_zero day_def)
  show ?thesis using mixed_active d r1 f3 p3 r2 by blast
qed

section \<open>Exceptions stay inside the feature functions\<close>

text \<open>
  C5: whatever the remote endpoint, the database and the library functions do (network
  errors, statuses outside 2xx, malformed bodies, texts that do not parse), each of the
  five exported functions returns a value; none of them raises. Where the body of the
  outer \<open>try\<close> raises, the value is the one of the \<open>catch\<close>: \<open>null\<close>, the summary, the
  static suggestions, the error object, the error message.
\<close>

theorem C5_exception_containment:
  "fst (predictNextCategory env now userId userTasks taskTitle w) =
     Inr (case fst (predictNextCategory_try env now userId userTasks taskTitle w) of
            Inl e \<Rightarrow> JNull | Inr v \<Rightarrow> v)
   \<and> fst (generateTaskDescription env now title' summary userId' w) =
     Inr (case fst (generateTaskDescription_try env now title' summary userId' w) of
            Inl e \<Rightarrow> JStr summary | Inr v \<Rightarrow> v)
   \<and> fst (generateTitleSuggestions env now prefix userId w) =
     Inr (case fst (generateTitleSuggestions_try env now prefix userId w) of
            Inl e \<Rightarrow> JArr (map JStr (static_suggestions prefix)) | Inr v \<Rightarrow> v)
   \<and> fst (generateTaskPrioritization env now userId tasks w) =
     Inr (case fst (generateTaskPrioritization_try env now userId tasks w) of
            Inl e \<Rightarrow> prioritization_error_result | Inr v \<Rightarrow> v)
   \<and> fst (generateCriticalTasksReport env now tasks w) =
     Inr (case fst (generateCriticalTasksReport_try env now tasks w) of
            Inl e \<Rightarrow> JStr ''Error generating report. Please try again later.'' | Inr v \<Rightarrow> v)"
  by (simp add: predictNextCategory_def generateTaskDescription_def generateTitleSuggestions_def
        generateTaskPrioritization_def generateCriticalTasksReport_def Let_def case_prod_beta
      split: sum.splits)

section \<open>Two invocations in succession\<close>

lemma get_idem:
  "CacheManager_get (snd (CacheManager_get c now k)) now k = CacheManager_get c now k"
  by (auto simp: CacheManager_get_def split: option.splits)

lemma cache_lookup_after_get [simp]:
  "cache_lookup (snd (CacheManager_get c now k)) now k' = cache_lookup c now k'"
  by (simp add: cache_lookup_def get_later_after_get)








lemma cache_lookup_set:
  "0 < t \<Longrightarrow>
   cache_lookup (CacheManager_set c now k v (Some t)) now k' =
     (if k' = k then usable (Some v) else cache_lookup c now k')"
  by (auto simp: cache_lookup_def CacheManager_set_def CacheManager_get_def Let_def
      split: option.splits)




lemma callGeminiAPI_frame:
  "shortTermCache (snd (callGeminiAPI env now p useCache cacheTtl fallbackFn w)) = shortTermCache w"
  "longTermCache (snd (callGeminiAPI env now p useCache cacheTtl fallbackFn w)) = longTermCache w"
  by (auto simp: callGeminiAPI_def axios_post_def Let_def case_prod_beta
      split: option.splits sum.splits)

lemma world_short_same [simp]: "w\<lparr>shortTermCache := shortTermCache w\<rparr> = w"
  by simp

lemma world_medium_same [simp]: "w\<lparr>mediumTermCache := mediumTermCache w\<rparr> = w"
  by simp





lemma length_generateHash [simp]: "length (generateHash env s) = 32"
  by (simp add: generateHash_def to_hex_def)

































end
